theory Spec2Isabelle
  imports Main "HOL-Library.Sublist" "HOL-Library.Signed_Division"
begin

section \<open>Go strings and the library functions the client calls\<close>

text \<open>
  A Go string is a sequence of bytes, and so is a \<^typ>\<open>string\<close> here: \<open>len\<close> is
  \<^const>\<open>length\<close>, \<open>s[:n]\<close> is \<^const>\<open>take\<close>, \<open>+\<close> is \<open>@\<close>. The functions of
  the packages \<open>strings\<close>, \<open>unicode/utf8\<close>, \<open>unicode\<close> and \<open>fmt\<close> that the client uses
  are written out below, on bytes, with UTF-8 decoded as Go decodes it: a rune is a
  natural number, and a byte that starts no valid encoding is the rune \<open>U+FFFD\<close> of
  width 1.
\<close>

definition dquote :: char where
  "dquote = CHR 0x22"

definition backslash :: char where
  "backslash = CHR 0x5C"

definition backtick :: char where
  "backtick = CHR 0x60"

text \<open>\<open>strings.ReplaceAll(s, old, new)\<close>: non-overlapping occurrences, left to right.
  For an empty \<open>old\<close> Go inserts \<open>new\<close> before every rune and at the end.\<close>

function ReplaceAll :: "string \<Rightarrow> string \<Rightarrow> string \<Rightarrow> string" where
  "ReplaceAll s old new =
     (if old = [] then new @ concat (map (\<lambda>c. c # new) s)
      else if s = [] then []
      else if prefix old s then new @ ReplaceAll (drop (length old) s) old new
      else hd s # ReplaceAll (tl s) old new)"
  by pat_completeness auto
termination
  by (relation "measure (\<lambda>(s, old, new). length s)") auto

declare ReplaceAll.simps [simp del]

text \<open>\<open>strings.Join(elems, sep)\<close>.\<close>

fun Join :: "string list \<Rightarrow> string \<Rightarrow> string" where
  "Join [] sep = []"
| "Join [x] sep = x"
| "Join (x # y # ys) sep = x @ sep @ Join (y # ys) sep"

text \<open>\<open>strings.HasPrefix(s, p)\<close>.\<close>

definition HasPrefix :: "string \<Rightarrow> string \<Rightarrow> bool" where
  "HasPrefix s p = (take (length p) s = p)"

text \<open>\<open>strings.TrimRight(s, cutset)\<close>, for a cutset of ASCII bytes.\<close>

definition TrimRight :: "string \<Rightarrow> string \<Rightarrow> string" where
  "TrimRight s cutset = rev (dropWhile (\<lambda>c. c \<in> set cutset) (rev s))"

subsection \<open>UTF-8\<close>

definition RuneError :: nat where
  "RuneError = 0xFFFD"

text \<open>
  \<open>utf8.DecodeRuneInString\<close>: the first rune of \<open>s\<close> and its width in bytes. The first
  byte decides the width and the range of the second byte (\<open>E0\<close>, \<open>ED\<close>, \<open>F0\<close> and
  \<open>F4\<close> narrow it, which excludes overlong forms, surrogates and runes beyond
  \<open>U+10FFFF\<close>); every further byte lies in \<open>80..BF\<close>. Anything else is
  \<open>(RuneError, 1)\<close>, and the empty string is \<open>(RuneError, 0)\<close>.
\<close>

fun DecodeRune :: "string \<Rightarrow> nat \<times> nat" where
  "DecodeRune [] = (RuneError, 0)"
| "DecodeRune (c0 # s) =
     (let b0 = (of_char c0 :: nat)
      in if b0 < 0x80 then (b0, 1)
         else if b0 < 0xC2 \<or> 0xF4 < b0 then (RuneError, 1)
         else if b0 < 0xE0 then
           (case s of
              c1 # _ \<Rightarrow>
                (let b1 = (of_char c1 :: nat)
                 in if 0x80 \<le> b1 \<and> b1 \<le> 0xBF then ((b0 mod 32) * 64 + b1 mod 64, 2)
                    else (RuneError, 1))
            | _ \<Rightarrow> (RuneError, 1))
         else if b0 < 0xF0 then
           (case s of
              c1 # c2 # _ \<Rightarrow>
                (let b1 = (of_char c1 :: nat); b2 = (of_char c2 :: nat)
                 in if (if b0 = 0xE0 then 0xA0 else 0x80) \<le> b1
                       \<and> b1 \<le> (if b0 = 0xED then 0x9F else 0xBF)
                       \<and> 0x80 \<le> b2 \<and> b2 \<le> 0xBF
                    then ((b0 mod 16) * 4096 + (b1 mod 64) * 64 + b2 mod 64, 3)
                    else (RuneError, 1))
            | _ \<Rightarrow> (RuneError, 1))
         else
           (case s of
              c1 # c2 # c3 # _ \<Rightarrow>
                (let b1 = (of_char c1 :: nat); b2 = (of_char c2 :: nat);
                     b3 = (of_char c3 :: nat)
                 in if (if b0 = 0xF0 then 0x90 else 0x80) \<le> b1
                       \<and> b1 \<le> (if b0 = 0xF4 then 0x8F else 0xBF)
                       \<and> 0x80 \<le> b2 \<and> b2 \<le> 0xBF \<and> 0x80 \<le> b3 \<and> b3 \<le> 0xBF
                    then ((b0 mod 8) * 262144 + (b1 mod 64) * 4096 + (b2 mod 64) * 64
                            + b3 mod 64, 4)
                    else (RuneError, 1))
            | _ \<Rightarrow> (RuneError, 1)))"

text \<open>
  \<open>utf8.DecodeLastRuneInString\<close>: the last rune of \<open>s\<close> and its width. An ASCII byte
  at the end is that rune. Otherwise Go steps back over at most three bytes to the
  nearest byte that is not a continuation byte (\<open>utf8.RuneStart\<close>), decodes from there,
  and accepts the rune only if it ends where \<open>s\<close> ends; in every other case the result
  is \<open>(RuneError, 1)\<close>.
\<close>

definition RuneStart :: "char \<Rightarrow> bool" where
  "RuneStart c = ((of_char c :: nat) div 64 \<noteq> 2)"

definition DecodeLastRune_from :: "string \<Rightarrow> nat \<Rightarrow> nat \<times> nat" where
  "DecodeLastRune_from s k =
     (let (r, size) = DecodeRune (drop (length s - k) s)
      in if size \<noteq> k then (RuneError, 1) else (r, size))"

definition DecodeLastRune :: "string \<Rightarrow> nat \<times> nat" where
  "DecodeLastRune s =
     (if s = [] then (RuneError, 0)
      else if (of_char (last s) :: nat) < 0x80 then (of_char (last s), 1)
      else if 2 \<le> length s \<and> RuneStart (s ! (length s - 2)) then DecodeLastRune_from s 2
      else if 3 \<le> length s \<and> RuneStart (s ! (length s - 3)) then DecodeLastRune_from s 3
      else if 4 \<le> length s \<and> RuneStart (s ! (length s - 4)) then DecodeLastRune_from s 4
      else (RuneError, 1))"

text \<open>\<open>utf8.AppendRune\<close>: the encoding of a rune; a surrogate or a rune beyond
  \<open>U+10FFFF\<close> is written as \<open>U+FFFD\<close>.\<close>

definition EncodeRune :: "nat \<Rightarrow> string" where
  "EncodeRune r =
     (if r < 0x80 then [char_of r]
      else if r < 0x800 then [char_of (0xC0 + r div 64), char_of (0x80 + r mod 64)]
      else if 0x10FFFF < r \<or> (0xD800 \<le> r \<and> r \<le> 0xDFFF) then [CHR 0xEF, CHR 0xBF, CHR 0xBD]
      else if r < 0x10000 then
        [char_of (0xE0 + r div 4096), char_of (0x80 + (r div 64) mod 64),
         char_of (0x80 + r mod 64)]
      else
        [char_of (0xF0 + r div 262144), char_of (0x80 + (r div 4096) mod 64),
         char_of (0x80 + (r div 64) mod 64), char_of (0x80 + r mod 64)])"

subsection \<open>White space\<close>

text \<open>\<open>unicode.IsSpace\<close>: the runes with the Unicode property White_Space.\<close>

definition IsSpace :: "nat \<Rightarrow> bool" where
  "IsSpace r =
     ((0x09 \<le> r \<and> r \<le> 0x0D) \<or> r = 0x20 \<or> r = 0x85 \<or> r = 0xA0 \<or> r = 0x1680
      \<or> (0x2000 \<le> r \<and> r \<le> 0x200A) \<or> r = 0x2028 \<or> r = 0x2029 \<or> r = 0x202F
      \<or> r = 0x205F \<or> r = 0x3000)"

text \<open>
  \<open>strings.TrimSpace(s)\<close> removes the white space runes at the front, then those at
  the end (its loops over ASCII bytes are a short cut for the same). The first loop
  decodes forwards, the second backwards.
\<close>

function TrimLeftSpace :: "string \<Rightarrow> string" where
  "TrimLeftSpace s =
     (if s = [] then []
      else (let (r, size) = DecodeRune s
            in if IsSpace r then TrimLeftSpace (drop size s) else s))"
  by pat_completeness auto
termination
proof (relation "measure length")
  show "wf (measure length)" by simp
next
  fix s :: string and x r size
  assume "s \<noteq> []" and "x = DecodeRune s" and "(r, size) = x"
  then have "0 < size"
    by (cases s) (auto simp: Let_def split: list.splits if_splits)
  with \<open>s \<noteq> []\<close> show "(drop size s, s) \<in> measure length"
    by simp
qed

declare TrimLeftSpace.simps [simp del]

function TrimRightSpace :: "string \<Rightarrow> string" where
  "TrimRightSpace s =
     (if s = [] then []
      else (let (r, size) = DecodeLastRune s
            in if IsSpace r then TrimRightSpace (take (length s - size) s) else s))"
  by pat_completeness auto
termination
proof (relation "measure length")
  show "wf (measure length)" by simp
next
  fix s :: string and x r size
  assume "s \<noteq> []" and "x = DecodeLastRune s" and "(r, size) = x"
  then have "0 < size"
    by (auto simp: DecodeLastRune_def DecodeLastRune_from_def Let_def
        split: if_splits prod.splits)
  with \<open>s \<noteq> []\<close> show "(take (length s - size) s, s) \<in> measure length"
    by simp
qed

declare TrimRightSpace.simps [simp del]

definition TrimSpace :: "string \<Rightarrow> string" where
  "TrimSpace s = TrimRightSpace (TrimLeftSpace s)"

subsection \<open>Letter case\<close>

text \<open>
  \<open>strings.ToUpper\<close> is used only to compare its result with \<open>DESC\<close> and \<open>ASC\<close>. It
  is given on ASCII, together with the two runes outside ASCII whose upper case is an
  ASCII letter, \<open>U+017F\<close> (bytes \<open>C5 BF\<close>, upper case \<open>S\<close>) and \<open>U+0131\<close> (\<open>C4 B1\<close>,
  upper case \<open>I\<close>); any other byte \<open>\<ge> 0x80\<close> is left as it is, where Go writes bytes
  \<open>\<ge> 0x80\<close> again, so that the comparison with an ASCII word comes out the same.
\<close>

definition upperByte :: "char \<Rightarrow> char" where
  "upperByte c =
     (case map_of (zip ''abcdefghijklmnopqrstuvwxyz'' ''ABCDEFGHIJKLMNOPQRSTUVWXYZ'') c of
        Some u \<Rightarrow> u
      | None \<Rightarrow> c)"

definition lowerByte :: "char \<Rightarrow> char" where
  "lowerByte c =
     (case map_of (zip ''ABCDEFGHIJKLMNOPQRSTUVWXYZ'' ''abcdefghijklmnopqrstuvwxyz'') c of
        Some l \<Rightarrow> l
      | None \<Rightarrow> c)"

fun ToUpper :: "string \<Rightarrow> string" where
  "ToUpper [] = []"
| "ToUpper [a] = [upperByte a]"
| "ToUpper (a # b # cs) =
     (if a = CHR 0xC5 \<and> b = CHR 0xBF then CHR ''S'' # ToUpper cs
      else if a = CHR 0xC4 \<and> b = CHR 0xB1 then CHR ''I'' # ToUpper cs
      else upperByte a # ToUpper (b # cs))"

text \<open>\<open>strings.Map(mapping, s)\<close>, for a mapping that drops no rune: every rune of \<open>s\<close>
  is decoded, mapped and encoded again.\<close>

function Map_runes :: "(nat \<Rightarrow> nat) \<Rightarrow> string \<Rightarrow> string" where
  "Map_runes mapping s =
     (if s = [] then []
      else (let (r, size) = DecodeRune s
            in EncodeRune (mapping r) @ Map_runes mapping (drop size s)))"
  by pat_completeness auto
termination
proof (relation "measure (\<lambda>(mapping, s). length s)")
  show "wf (measure (\<lambda>(mapping :: nat \<Rightarrow> nat, s :: string). length s))" by simp
next
  fix mapping :: "nat \<Rightarrow> nat" and s :: string and x r size
  assume "s \<noteq> []" and "x = DecodeRune s" and "(r, size) = x"
  then have "0 < size"
    by (cases s) (auto simp: Let_def split: list.splits if_splits)
  with \<open>s \<noteq> []\<close>
  show "((mapping, drop size s), (mapping, s)) \<in> measure (\<lambda>(mapping, s). length s)"
    by simp
qed

declare Map_runes.simps [simp del]

text \<open>
  \<open>strings.ToLower(s)\<close>: a string of ASCII bytes is lower-cased byte by byte;
  any other string is mapped rune by rune with \<open>unicode.ToLower\<close>. That function is
  Go's table of Unicode letter cases, which is not part of this program: it is the
  parameter \<open>lower\<close>.
\<close>

definition ToLower :: "(nat \<Rightarrow> nat) \<Rightarrow> string \<Rightarrow> string" where
  "ToLower lower s =
     (if list_all (\<lambda>c. (of_char c :: nat) < 0x80) s then map lowerByte s
      else Map_runes lower s)"

text \<open>\<open>fmt.Sprintf("%d", n)\<close>: the decimal digits, with a minus sign below zero.\<close>

fun digits :: "nat \<Rightarrow> string" where
  "digits n =
     (if n < 10 then [''0123456789'' ! n]
      else digits (n div 10) @ [''0123456789'' ! (n mod 10)])"

declare digits.simps [simp del]

definition Sprintf_d :: "int \<Rightarrow> string" where
  "Sprintf_d n = (if n < 0 then CHR ''-'' # digits (nat (- n)) else digits (nat n))"

text \<open>The number that a string of decimal digits stands for; it is used to state
  what \<open>Sprintf_d\<close> prints.\<close>

definition decimalValue :: "string \<Rightarrow> nat" where
  "decimalValue s = foldl (\<lambda>a c. 10 * a + ((of_char c :: nat) - 48)) 0 s"

section \<open>Query builders\<close>

text \<open>\<open>escapeIdent\<close> removes backticks and turns spaces into underscores;
  \<open>escapeString\<close> puts a backslash before every double quote.\<close>

definition escapeIdent :: "string \<Rightarrow> string" where
  "escapeIdent s = ReplaceAll (ReplaceAll s [backtick] []) '' '' ''_''"

definition escapeString :: "string \<Rightarrow> string" where
  "escapeString s = ReplaceAll s [dquote] [backslash, dquote]"

text \<open>
  A Go map is given by its entries in the order in which \<open>range\<close> visits them (the
  run-time system chooses that order; keys are distinct). A nil map and an empty map are
  both \<open>[]\<close>: \<open>len\<close> and \<open>range\<close> do not tell them apart.

  The loop of \<open>BuildSelect\<close> over the filters, with its counter \<open>i\<close> and the builder \<open>b\<close>.
\<close>

fun BuildSelect_filters :: "nat \<Rightarrow> (string \<times> string) list \<Rightarrow> string \<Rightarrow> string" where
  "BuildSelect_filters i [] b = b"
| "BuildSelect_filters i ((k, v) # fs) b =
     BuildSelect_filters (i + 1) fs
       ((if i > 0 then b @ '' AND '' else b)
          @ escapeIdent k @ '' == '' @ [dquote] @ escapeString v @ [dquote])"

definition BuildSelect ::
  "string \<Rightarrow> (string \<times> string) list \<Rightarrow> int \<Rightarrow> string \<Rightarrow> string \<Rightarrow> string" where
  "BuildSelect collection filters limit sortBy sortOrder =
     (let b0 = ''SELECT * FROM '' @ escapeIdent collection;
          b1 = (if length filters > 0
                then BuildSelect_filters 0 filters (b0 @ '' WHERE '')
                else b0);
          b2 = (if sortBy \<noteq> []
                then (let b = b1 @ '' ORDER BY '' @ escapeIdent sortBy
                      in if ToUpper sortOrder = ''DESC'' then b @ '' DESC''
                         else if ToUpper sortOrder = ''ASC'' then b @ '' ASC''
                         else b)
                else b1)
      in if limit > 0 then b2 @ '' LIMIT '' @ Sprintf_d limit else b2)"

section \<open>Errors and values\<close>

text \<open>
  A Go \<open>error\<close> is a value: either one with a message of its own (\<open>errors.New\<close>,
  \<open>fmt.Errorf\<close> without \<open>%w\<close>, or an error of the network, the decoder or a process), or
  one that wraps another behind a prefix (\<open>fmt.Errorf("prefix: %w", err)\<close>). A function
  that returns \<open>(x, error)\<close> returns \<open>error + x\<close> here, and one that returns only
  \<open>error\<close> returns \<open>error option\<close>, \<open>None\<close> being \<open>nil\<close>.
\<close>

datatype error = Error string | Wrap string error

fun Error_msg :: "error \<Rightarrow> string" where
  "Error_msg (Error m) = m"
| "Error_msg (Wrap p e) = p @ Error_msg e"

text \<open>The values of type \<open>any\<close> that travel as query arguments and as decoded responses.\<close>

datatype anyv =
    VNil
  | VBool bool
  | VInt int
  | VString string
  | VList "anyv list"
  | VMap "(string \<times> anyv) list"

text \<open>\<open>BuildInsert\<close> binds the whole document under the key \<open>doc\<close>.\<close>

definition BuildInsert ::
  "string \<Rightarrow> (string \<times> anyv) list \<Rightarrow> error + (string \<times> (string \<rightharpoonup> anyv))" where
  "BuildInsert collection doc =
     (if collection = [] then Inl (Error ''collection required'')
      else Inr (''INSERT INTO '' @ escapeIdent collection @ '' DOCUMENTS (:doc)'',
                [''doc'' \<mapsto> VMap doc]))"

text \<open>The loop of \<open>BuildUpdate\<close> over the patch: it appends one SET clause to \<open>parts\<close>
  and stores one argument in \<open>args\<close> per entry.\<close>

fun BuildUpdate_patch ::
  "(string \<times> anyv) list \<Rightarrow> string list \<Rightarrow> (string \<rightharpoonup> anyv)
     \<Rightarrow> string list \<times> (string \<rightharpoonup> anyv)" where
  "BuildUpdate_patch [] parts args = (parts, args)"
| "BuildUpdate_patch ((k, v) # ps) parts args =
     (let pname = ''p_'' @ k
      in BuildUpdate_patch ps (parts @ [escapeIdent k @ '' = :'' @ pname]) (args(pname \<mapsto> v)))"

definition BuildUpdate ::
  "string \<Rightarrow> string \<Rightarrow> (string \<times> anyv) list \<Rightarrow> error + (string \<times> (string \<rightharpoonup> anyv))" where
  "BuildUpdate collection id' patch =
     (if collection = [] \<or> id' = [] then Inl (Error ''collection and id required'')
      else if length patch = 0 then Inl (Error ''patch is empty'')
      else (let (parts, args) = BuildUpdate_patch patch [] [''id'' \<mapsto> VString id'];
                set' = Join parts '', ''
            in Inr (''UPDATE '' @ escapeIdent collection @ '' SET '' @ set'
                      @ '' WHERE _id == :id'', args)))"

section \<open>Container runners\<close>

record DockerOptions =
  ContainerName :: string
  ImageName :: string
  ImageTarPath :: string
  ConfigPath :: string
  DataPath :: string
  ComposeFile :: string
  ComposeService :: string

text \<open>
  The interface \<open>DockerRunner\<close>. A method runs external commands, so it takes the state
  \<open>'w\<close> of the machine and returns the new one with its result; \<open>'c\<close> is the type of
  contexts.
\<close>

record ('c, 'w) DockerRunner =
  EnsureImageLoaded :: "'c \<Rightarrow> string \<Rightarrow> string \<Rightarrow> 'w \<Rightarrow> error option \<times> 'w"
  ContainerStatus :: "'c \<Rightarrow> string \<Rightarrow> 'w \<Rightarrow> (error + string) \<times> 'w"
  RunContainer :: "'c \<Rightarrow> DockerOptions \<Rightarrow> 'w \<Rightarrow> error option \<times> 'w"
  StartContainer :: "'c \<Rightarrow> string \<Rightarrow> 'w \<Rightarrow> error option \<times> 'w"
  StopContainer :: "'c \<Rightarrow> string \<Rightarrow> 'w \<Rightarrow> error option \<times> 'w"

text \<open>
  \<open>exec.CommandContext(ctx, name, args...).CombinedOutput()\<close>: the operating system,
  which returns the output and an error or \<open>nil\<close>. The runners take it as the
  parameter \<open>os\<close>, and Go's table of lower case as the parameter \<open>lower\<close>.
\<close>

type_synonym ('c, 'w) os = "'c \<Rightarrow> string \<Rightarrow> string list \<Rightarrow> 'w \<Rightarrow> (string \<times> error option) \<times> 'w"

definition runCmd :: "('c, 'w) os \<Rightarrow> 'c \<Rightarrow> string \<Rightarrow> string list \<Rightarrow> 'w \<Rightarrow> error option \<times> 'w" where
  "runCmd os ctx name args w =
     (let ((out, err), w') = os ctx name args w
      in case err of
           Some e \<Rightarrow>
             (Some (Error (name @ '' '' @ Join args '' '' @ '': '' @ Error_msg e @ '': '' @ out)), w')
         | None \<Rightarrow> (None, w'))"

definition psCommand :: "string \<Rightarrow> string" where
  "psCommand name =
     ''docker ps -a --filter name=^/'' @ name @ ''$ --format '' @ [CHR 0x27]
       @ ''{{.Status}}'' @ [CHR 0x27]"

subsection \<open>The plain runner\<close>

definition dockerRunnerDefault_EnsureImageLoaded ::
  "('c, 'w) os \<Rightarrow> 'c \<Rightarrow> string \<Rightarrow> string \<Rightarrow> 'w \<Rightarrow> error option \<times> 'w" where
  "dockerRunnerDefault_EnsureImageLoaded os ctx imageName tarPath w =
     (case runCmd os ctx ''docker'' [''image'', ''inspect'', imageName] w of
        (None, w1) \<Rightarrow> (None, w1)
      | (Some _, w1) \<Rightarrow>
          (case runCmd os ctx ''docker'' [''load'', ''-i'', tarPath] w1 of
             (Some err, w2) \<Rightarrow> (Some (Wrap ''docker load: '' err), w2)
           | (None, w2) \<Rightarrow> (None, w2)))"

definition dockerRunnerDefault_ContainerStatus ::
  "(nat \<Rightarrow> nat) \<Rightarrow> ('c, 'w) os \<Rightarrow> 'c \<Rightarrow> string \<Rightarrow> 'w \<Rightarrow> (error + string) \<times> 'w" where
  "dockerRunnerDefault_ContainerStatus lower os ctx name w =
     (let ((out, err), w') = os ctx ''bash'' [''-lc'', psCommand name] w
      in case err of
           Some e \<Rightarrow> (Inl (Wrap ''docker ps: '' e), w')
         | None \<Rightarrow>
             (let s = ToLower lower (TrimSpace out)
              in if s = [] then (Inr ''not-found'', w')
                 else if HasPrefix s ''up '' then (Inr ''running'', w')
                 else if HasPrefix s ''exited '' then (Inr ''exited'', w')
                 else (Inr s, w')))"

definition dockerRunnerDefault_RunContainer ::
  "('c, 'w) os \<Rightarrow> 'c \<Rightarrow> DockerOptions \<Rightarrow> 'w \<Rightarrow> error option \<times> 'w" where
  "dockerRunnerDefault_RunContainer os ctx opts w =
     (let args = [''run'', ''-d'', ''--name'', ContainerName opts,
                  ''-p'', ''127.0.0.1:8090:8090'',
                  ''-v'', ConfigPath opts @ '':/config.yaml'',
                  ''-v'', DataPath opts @ '':/data'',
                  ImageName opts, ''run'', ''-c'', ''/config.yaml'']
      in case runCmd os ctx ''docker'' args w of
           (Some err, w') \<Rightarrow> (Some (Wrap ''docker run: '' err), w')
         | (None, w') \<Rightarrow> (None, w'))"

definition dockerRunnerDefault_StartContainer ::
  "('c, 'w) os \<Rightarrow> 'c \<Rightarrow> string \<Rightarrow> 'w \<Rightarrow> error option \<times> 'w" where
  "dockerRunnerDefault_StartContainer os ctx name w = runCmd os ctx ''docker'' [''start'', name] w"

definition dockerRunnerDefault_StopContainer ::
  "('c, 'w) os \<Rightarrow> 'c \<Rightarrow> string \<Rightarrow> 'w \<Rightarrow> error option \<times> 'w" where
  "dockerRunnerDefault_StopContainer os ctx name w = runCmd os ctx ''docker'' [''stop'', name] w"

definition NewDockerRunnerDefault :: "(nat \<Rightarrow> nat) \<Rightarrow> ('c, 'w) os \<Rightarrow> ('c, 'w) DockerRunner" where
  "NewDockerRunnerDefault lower os =
     \<lparr> EnsureImageLoaded = dockerRunnerDefault_EnsureImageLoaded os,
       ContainerStatus = dockerRunnerDefault_ContainerStatus lower os,
       RunContainer = dockerRunnerDefault_RunContainer os,
       StartContainer = dockerRunnerDefault_StartContainer os,
       StopContainer = dockerRunnerDefault_StopContainer os \<rparr>"

subsection \<open>The compose runner\<close>

definition composeRunnerDefault_EnsureImageLoaded ::
  "('c, 'w) os \<Rightarrow> 'c \<Rightarrow> string \<Rightarrow> string \<Rightarrow> 'w \<Rightarrow> error option \<times> 'w" where
  "composeRunnerDefault_EnsureImageLoaded os ctx imageName tarPath w =
     (case runCmd os ctx ''docker'' [''image'', ''inspect'', imageName] w of
        (None, w1) \<Rightarrow> (None, w1)
      | (Some _, w1) \<Rightarrow>
          (if tarPath \<noteq> [] then
             (case runCmd os ctx ''docker'' [''load'', ''-i'', tarPath] w1 of
                (Some err, w2) \<Rightarrow> (Some (Wrap ''docker load: '' err), w2)
              | (None, w2) \<Rightarrow> (None, w2))
           else (None, w1)))"

definition composeRunnerDefault_ContainerStatus ::
  "(nat \<Rightarrow> nat) \<Rightarrow> ('c, 'w) os \<Rightarrow> 'c \<Rightarrow> string \<Rightarrow> 'w \<Rightarrow> (error + string) \<times> 'w" where
  "composeRunnerDefault_ContainerStatus lower os ctx name w =
     (let ((out, err), w') = os ctx ''bash'' [''-lc'', psCommand name] w
      in case err of
           Some e \<Rightarrow> (Inl (Wrap ''docker ps: '' e), w')
         | None \<Rightarrow>
             (let s = ToLower lower (TrimSpace out)
              in if s = [] then (Inr ''not-found'', w')
                 else if HasPrefix s ''up '' then (Inr ''running'', w')
                 else if HasPrefix s ''exited '' then (Inr ''exited'', w')
                 else (Inr s, w')))"

definition composeRunnerDefault_RunContainer ::
  "('c, 'w) os \<Rightarrow> 'c \<Rightarrow> DockerOptions \<Rightarrow> 'w \<Rightarrow> error option \<times> 'w" where
  "composeRunnerDefault_RunContainer os ctx opts w =
     (let svc = (if ComposeService opts = [] then ''ditto-edge-server'' else ComposeService opts);
          args = [''compose'']
                   @ (if ComposeFile opts \<noteq> [] then [''-f'', ComposeFile opts] else [])
                   @ [''up'', ''-d'', svc]
      in case runCmd os ctx ''docker'' args w of
           (Some err, w') \<Rightarrow> (Some (Wrap ''docker compose up: '' err), w')
         | (None, w') \<Rightarrow> (None, w'))"

definition composeRunnerDefault_StartContainer ::
  "('c, 'w) os \<Rightarrow> 'c \<Rightarrow> string \<Rightarrow> 'w \<Rightarrow> error option \<times> 'w" where
  "composeRunnerDefault_StartContainer os ctx name w =
     runCmd os ctx ''docker'' [''compose'', ''start'', name] w"

definition composeRunnerDefault_StopContainer ::
  "('c, 'w) os \<Rightarrow> 'c \<Rightarrow> string \<Rightarrow> 'w \<Rightarrow> error option \<times> 'w" where
  "composeRunnerDefault_StopContainer os ctx name w =
     (let (_, w1) = runCmd os ctx ''docker'' [''compose'', ''stop'', name] w;
          (_, w2) = runCmd os ctx ''docker'' [''stop'', name] w1;
          (_, w3) = runCmd os ctx ''docker'' [''rm'', ''-f'', name] w2
      in (None, w3))"

definition NewComposeRunnerDefault :: "(nat \<Rightarrow> nat) \<Rightarrow> ('c, 'w) os \<Rightarrow> ('c, 'w) DockerRunner" where
  "NewComposeRunnerDefault lower os =
     \<lparr> EnsureImageLoaded = composeRunnerDefault_EnsureImageLoaded os,
       ContainerStatus = composeRunnerDefault_ContainerStatus lower os,
       RunContainer = composeRunnerDefault_RunContainer os,
       StartContainer = composeRunnerDefault_StartContainer os,
       StopContainer = composeRunnerDefault_StopContainer os \<rparr>"

section \<open>The service\<close>

text \<open>
  What the client posts: the JSON object \<open>{query, query_args?}\<close>, with the method, the
  address and the content type of the request. \<open>query_args\<close> is \<open>None\<close> when the key is
  absent. What it receives: a status code and the body read from the response.
\<close>

record request =
  reqMethod :: string
  url :: string
  contentType :: string
  query :: string
  query_args :: "(string \<rightharpoonup> anyv) option"

record response =
  StatusCode :: int
  Body :: string

text \<open>
  The struct \<open>service\<close>. The field \<open>HTTP\<close> is the client's \<open>Do\<close>: it sends a request
  and returns a response or a transport error. \<open>docker\<close> is \<open>None\<close> when no runner is
  attached.
\<close>

record ('c, 'w) service =
  BaseURL :: string
  AppID :: string
  HTTP :: "'c \<Rightarrow> request \<Rightarrow> error + response"
  docker :: "('c, 'w) DockerRunner option"
  dockerOpts :: DockerOptions
  startedDocker :: bool

text \<open>
  Two functions of the standard library are parameters: \<open>http.NewRequestWithContext\<close>,
  which refuses an address that does not parse, and the JSON decoder.
\<close>

record 'c httplib =
  NewRequestWithContext :: "'c \<Rightarrow> string \<Rightarrow> string \<Rightarrow> error option"
  Decode :: "string \<Rightarrow> error + anyv"

definition WithDocker ::
  "('c, 'w) service \<Rightarrow> ('c, 'w) DockerRunner option \<Rightarrow> DockerOptions \<Rightarrow> ('c, 'w) service" where
  "WithDocker s d opts = s\<lparr>docker := d, dockerOpts := opts\<rparr>"

text \<open>
  A method that may post returns its result together with the list of the requests it
  handed to the HTTP client.
\<close>

definition exec ::
  "('c, 'w) service \<Rightarrow> 'c httplib \<Rightarrow> 'c \<Rightarrow> string \<Rightarrow> (error + anyv) \<times> request list" where
  "exec s lib ctx q0 =
     (let url' = TrimRight (BaseURL s) ''/'' @ ''/'' @ AppID s @ ''/execute'';
          req = \<lparr> reqMethod = ''POST'', url = url', contentType = ''application/json'',
                  query = q0, query_args = None \<rparr>
      in case NewRequestWithContext lib ctx ''POST'' url' of
           Some err \<Rightarrow> (Inl err, [])
         | None \<Rightarrow>
             (case HTTP s ctx req of
                Inl err \<Rightarrow> (Inl err, [req])
              | Inr resp \<Rightarrow>
                  (if StatusCode resp sdiv 100 \<noteq> 2 then
                     (let body = Body resp;
                          snippet = (if length body > 256 then take 256 body @ ''...'' else body);
                          q = (if length q0 > 200 then take 200 q0 @ ''...'' else q0)
                      in (Inl (Error (''ditto http '' @ Sprintf_d (StatusCode resp) @ '': ''
                                        @ TrimSpace snippet @ '' | query: '' @ q)), [req]))
                   else
                     (case Decode lib (Body resp) of
                        Inl err \<Rightarrow> (Inl err, [req])
                      | Inr out \<Rightarrow> (Inr out, [req])))))"

definition execWithArgs ::
  "('c, 'w) service \<Rightarrow> 'c httplib \<Rightarrow> 'c \<Rightarrow> string \<Rightarrow> (string \<rightharpoonup> anyv) option
     \<Rightarrow> (error + anyv) \<times> request list" where
  "execWithArgs s lib ctx q0 args =
     (let url' = TrimRight (BaseURL s) ''/'' @ ''/'' @ AppID s @ ''/execute'';
          req = \<lparr> reqMethod = ''POST'', url = url', contentType = ''application/json'',
                  query = q0, query_args = args \<rparr>
      in case NewRequestWithContext lib ctx ''POST'' url' of
           Some err \<Rightarrow> (Inl err, [])
         | None \<Rightarrow>
             (case HTTP s ctx req of
                Inl err \<Rightarrow> (Inl err, [req])
              | Inr resp \<Rightarrow>
                  (if StatusCode resp sdiv 100 \<noteq> 2 then
                     (let body = Body resp;
                          snippet = (if length body > 256 then take 256 body @ ''...'' else body);
                          q = (if length q0 > 200 then take 200 q0 @ ''...'' else q0)
                      in (Inl (Error (''ditto http '' @ Sprintf_d (StatusCode resp) @ '': ''
                                        @ TrimSpace snippet @ '' | query: '' @ q)), [req]))
                   else
                     (case Decode lib (Body resp) of
                        Inl err \<Rightarrow> (Inl err, [req])
                      | Inr out \<Rightarrow> (Inr out, [req])))))"

definition CreateDocument ::
  "('c, 'w) service \<Rightarrow> 'c httplib \<Rightarrow> 'c \<Rightarrow> string \<Rightarrow> (string \<times> anyv) list
     \<Rightarrow> (error + anyv) \<times> request list" where
  "CreateDocument s lib ctx collection doc =
     (case BuildInsert collection doc of
        Inl err \<Rightarrow> (Inl err, [])
      | Inr (q, args) \<Rightarrow> execWithArgs s lib ctx q (Some args))"

definition GetRecord ::
  "('c, 'w) service \<Rightarrow> 'c httplib \<Rightarrow> 'c \<Rightarrow> string \<Rightarrow> string \<Rightarrow> (error + anyv) \<times> request list" where
  "GetRecord s lib ctx collection id' =
     (let q = ''SELECT * FROM '' @ escapeIdent collection @ '' WHERE _id == :id LIMIT 1''
      in execWithArgs s lib ctx q (Some [''id'' \<mapsto> VString id']))"

definition GetRecords ::
  "('c, 'w) service \<Rightarrow> 'c httplib \<Rightarrow> 'c \<Rightarrow> string \<Rightarrow> int \<Rightarrow> string \<Rightarrow> string
     \<Rightarrow> (error + anyv) \<times> request list" where
  "GetRecords s lib ctx collection limit sortBy sortOrder =
     (let q = BuildSelect collection [] limit sortBy sortOrder
      in execWithArgs s lib ctx q None)"

definition UpdateRecord ::
  "('c, 'w) service \<Rightarrow> 'c httplib \<Rightarrow> 'c \<Rightarrow> string \<Rightarrow> string \<Rightarrow> (string \<times> anyv) list
     \<Rightarrow> (error + anyv) \<times> request list" where
  "UpdateRecord s lib ctx collection id' patch =
     (case BuildUpdate collection id' patch of
        Inl err \<Rightarrow> (Inl err, [])
      | Inr (q, args) \<Rightarrow> execWithArgs s lib ctx q (Some args))"

definition DeleteRecord ::
  "('c, 'w) service \<Rightarrow> 'c httplib \<Rightarrow> 'c \<Rightarrow> string \<Rightarrow> string \<Rightarrow> (error + anyv) \<times> request list" where
  "DeleteRecord s lib ctx collection id' =
     (let q = ''DELETE FROM '' @ escapeIdent collection @ '' WHERE _id = :id''
      in execWithArgs s lib ctx q (Some [''id'' \<mapsto> VString id']))"

definition DeleteAllRecords ::
  "('c, 'w) service \<Rightarrow> 'c httplib \<Rightarrow> 'c \<Rightarrow> string \<Rightarrow> (error + anyv) \<times> request list" where
  "DeleteAllRecords s lib ctx collection =
     (if collection = [] then (Inl (Error ''collection required''), [])
      else (let q = ''DELETE FROM '' @ escapeIdent collection @ '' WHERE _id LIKE :pattern''
            in execWithArgs s lib ctx q (Some [''pattern'' \<mapsto> VString ''%''])))"

definition LatestRecord ::
  "('c, 'w) service \<Rightarrow> 'c httplib \<Rightarrow> 'c \<Rightarrow> string \<Rightarrow> string \<Rightarrow> (error + anyv) \<times> request list" where
  "LatestRecord s lib ctx collection sortBy =
     (let q = BuildSelect collection [] 1 sortBy ''DESC''
      in execWithArgs s lib ctx q None)"

definition Search ::
  "('c, 'w) service \<Rightarrow> 'c httplib \<Rightarrow> 'c \<Rightarrow> string \<Rightarrow> (string \<times> string) list \<Rightarrow> int
     \<Rightarrow> string \<Rightarrow> string \<Rightarrow> (error + anyv) \<times> request list" where
  "Search s lib ctx collection filters limit sortBy sortOrder =
     (let q = BuildSelect collection filters limit sortBy sortOrder
      in execWithArgs s lib ctx q None)"

subsection \<open>Start and shutdown\<close>

text \<open>
  \<open>InitDB\<close> and \<open>Close\<close> call the runner. They return the error (or \<open>None\<close>), the service
  (\<open>InitDB\<close> may set \<open>startedDocker\<close>), the new state of the machine, and the list of the
  runner's methods they invoked, in order.
\<close>

datatype call =
    Call_EnsureImageLoaded string string
  | Call_ContainerStatus string
  | Call_RunContainer DockerOptions
  | Call_StartContainer string
  | Call_StopContainer string

definition InitDB ::
  "('c, 'w) service \<Rightarrow> 'c \<Rightarrow> 'w \<Rightarrow> error option \<times> ('c, 'w) service \<times> 'w \<times> call list" where
  "InitDB s ctx w =
     (case docker s of
        None \<Rightarrow> (None, s, w, [])
      | Some d \<Rightarrow>
          (let opts = dockerOpts s;
               c1 = [Call_EnsureImageLoaded (ImageName opts) (ImageTarPath opts)];
               c2 = c1 @ [Call_ContainerStatus (ContainerName opts)];
               c3 = c2 @ [Call_RunContainer opts]
           in case EnsureImageLoaded d ctx (ImageName opts) (ImageTarPath opts) w of
                (Some err, w1) \<Rightarrow> (Some (Wrap ''ensure image: '' err), s, w1, c1)
              | (None, w1) \<Rightarrow>
                  (case ContainerStatus d ctx (ContainerName opts) w1 of
                     (Inl err, w2) \<Rightarrow> (Some (Wrap ''container status: '' err), s, w2, c2)
                   | (Inr status, w2) \<Rightarrow>
                       (if status = ''running'' then (None, s, w2, c2)
                        else if status = ''exited'' then
                          (case RunContainer d ctx opts w2 of
                             (Some err, w3) \<Rightarrow> (Some (Wrap ''start container: '' err), s, w3, c3)
                           | (None, w3) \<Rightarrow> (None, s, w3, c3))
                        else
                          (case RunContainer d ctx opts w2 of
                             (Some err, w3) \<Rightarrow> (Some (Wrap ''run container: '' err), s, w3, c3)
                           | (None, w3) \<Rightarrow> (None, s\<lparr>startedDocker := True\<rparr>, w3, c3))))))"

definition Close ::
  "('c, 'w) service \<Rightarrow> 'c \<Rightarrow> 'w \<Rightarrow> error option \<times> 'w \<times> call list" where
  "Close s ctx w =
     (case docker s of
        Some d \<Rightarrow>
          (let (_, w1) = StopContainer d ctx (ContainerName (dockerOpts s)) w
           in (None, w1, [Call_StopContainer (ContainerName (dockerOpts s))]))
      | None \<Rightarrow> (None, w, []))"

section \<open>Example inputs\<close>

text \<open>
  Concrete inputs on which the properties below are evaluated: a library that accepts
  every address and decodes only \<open>null\<close>, a server that answers every request with a
  given status code and body, and a machine that runs every command with success, prints
  a given status line for \<open>docker ps\<close>, and keeps the list of the commands it ran.
\<close>

definition example_lib :: "unit httplib" where
  "example_lib =
     \<lparr> NewRequestWithContext = (\<lambda>ctx m u. None),
       Decode = (\<lambda>body. if body = ''null'' then Inr VNil else Inl (Error ''invalid JSON'')) \<rparr>"

definition example_opts :: DockerOptions where
  "example_opts =
     \<lparr> ContainerName = ''ditto-edge'', ImageName = ''dittoedge/server:latest'',
       ImageTarPath = [], ConfigPath = ''/path/to/config.yaml'', DataPath = ''/path/to/data'',
       ComposeFile = [], ComposeService = [] \<rparr>"

definition example_service :: "int \<Rightarrow> string \<Rightarrow> (unit, string list list) service" where
  "example_service code body =
     \<lparr> BaseURL = ''http://localhost:8090'', AppID = ''myapp'',
       HTTP = (\<lambda>ctx req. Inr \<lparr> StatusCode = code, Body = body \<rparr>),
       docker = None, dockerOpts = example_opts, startedDocker = False \<rparr>"

text \<open>A part of Go's table of lower case: the ASCII capitals, \<open>U+00C9\<close>, \<open>U+0130\<close>
  and \<open>U+212A\<close>.\<close>

definition example_lower :: "nat \<Rightarrow> nat" where
  "example_lower r =
     (if 0x41 \<le> r \<and> r \<le> 0x5A then r + 32
      else if r = 0xC9 then 0xE9
      else if r = 0x130 then 0x69
      else if r = 0x212A then 0x6B
      else r)"

definition example_os :: "string \<Rightarrow> (unit, string list list) os" where
  "example_os status ctx name args w =
     ((if name = ''bash'' then status else [], None), w @ [name # args])"

definition failing_os :: "(unit, string list list) os" where
  "failing_os ctx name args w = (([], Some (Error ''exit status 1'')), w @ [name # args])"

definition example_docker_service :: "string \<Rightarrow> (unit, string list list) service" where
  "example_docker_service status =
     WithDocker (example_service 200 ''null'')
       (Some (NewDockerRunnerDefault example_lower (example_os status))) example_opts"

definition example_compose_service :: "(unit, string list list) service" where
  "example_compose_service =
     WithDocker (example_service 200 ''null'')
       (Some (NewComposeRunnerDefault example_lower failing_os)) example_opts"

section \<open>Properties of the query builders\<close>

subsection \<open>Escaping, character by character\<close>

lemma ReplaceAll_Nil: "old \<noteq> [] \<Longrightarrow> ReplaceAll [] old new = []"
  by (simp add: ReplaceAll.simps)

lemma ReplaceAll_single_Cons:
  "ReplaceAll (c # cs) [d] new =
     (if c = d then new @ ReplaceAll cs [d] new else c # ReplaceAll cs [d] new)"
  by (subst ReplaceAll.simps) simp

lemma ReplaceAll_single:
  "ReplaceAll s [d] new = concat (map (\<lambda>c. if c = d then new else [c]) s)"
  by (induction s) (simp_all add: ReplaceAll_Nil ReplaceAll_single_Cons)

lemma escapeIdent_eq:
  "escapeIdent s =
     map (\<lambda>c. if c = CHR '' '' then CHR ''_'' else c) (filter (\<lambda>c. c \<noteq> backtick) s)"
  unfolding escapeIdent_def ReplaceAll_single
  by (induction s) (simp_all add: backtick_def)

lemma escapeString_eq:
  "escapeString s = concat (map (\<lambda>c. if c = dquote then [backslash, dquote] else [c]) s)"
  unfolding escapeString_def ReplaceAll_single ..

text \<open>On ASCII strings the case mappings work byte by byte, so that comparing
  \<open>ToUpper s\<close> with a word in capitals compares \<open>s\<close> with it up to the case of letters.\<close>

lemma ToUpper_ascii:
  "\<forall>c \<in> set s. (of_char c :: nat) < 128 \<Longrightarrow> ToUpper s = map upperByte s"
  by (induction s rule: ToUpper.induct) auto

lemma ToLower_ascii:
  "list_all (\<lambda>c. (of_char c :: nat) < 0x80) s \<Longrightarrow> ToLower lower s = map lowerByte s"
  by (simp add: ToLower_def)

lemma upperByte_eq_iff:
  "upperByte c = CHR ''D'' \<longleftrightarrow> lowerByte c = CHR ''d''"
  "upperByte c = CHR ''E'' \<longleftrightarrow> lowerByte c = CHR ''e''"
  "upperByte c = CHR ''S'' \<longleftrightarrow> lowerByte c = CHR ''s''"
  "upperByte c = CHR ''C'' \<longleftrightarrow> lowerByte c = CHR ''c''"
  "upperByte c = CHR ''A'' \<longleftrightarrow> lowerByte c = CHR ''a''"
  by (auto simp: upperByte_def lowerByte_def)

text \<open>For a sort order of ASCII bytes, the test of \<open>BuildSelect\<close> holds exactly when the
  sort order is the word up to the case of its letters.\<close>

lemma ToUpper_word_iff:
  assumes "list_all (\<lambda>c. (of_char c :: nat) < 0x80) s"
  shows "ToUpper s = ''DESC'' \<longleftrightarrow> map lowerByte s = ''desc''"
    and "ToUpper s = ''ASC'' \<longleftrightarrow> map lowerByte s = ''asc''"
proof -
  from assms have "\<forall>c \<in> set s. (of_char c :: nat) < 128"
    by (simp add: list_all_iff)
  then have u: "ToUpper s = map upperByte s"
    by (rule ToUpper_ascii)
  show "ToUpper s = ''DESC'' \<longleftrightarrow> map lowerByte s = ''desc''"
    unfolding u by (auto simp: map_eq_Cons_conv upperByte_eq_iff)
  show "ToUpper s = ''ASC'' \<longleftrightarrow> map lowerByte s = ''asc''"
    unfolding u by (auto simp: map_eq_Cons_conv upperByte_eq_iff)
qed

text \<open>Rules for evaluating the functions on UTF-8 at a given string.\<close>

lemmas utf8_eval =
  TrimSpace_def TrimLeftSpace.simps TrimRightSpace.simps DecodeLastRune_def
  DecodeLastRune_from_def IsSpace_def RuneStart_def RuneError_def ToLower_def Map_runes.simps
  EncodeRune_def char_of_eq_iff lowerByte_def

subsection \<open>Trimming\<close>

text \<open>\<open>TrimSpace\<close> returns a part of its argument; on ASCII it drops the six ASCII
  white space bytes from both ends.\<close>

lemma TrimLeftSpace_drop: "\<exists>n. TrimLeftSpace s = drop n s"
proof (induction s rule: TrimLeftSpace.induct)
  case (1 s)
  show ?case
  proof (cases "s = []")
    case True
    then show ?thesis by (simp add: TrimLeftSpace.simps)
  next
    case False
    obtain r size where d: "DecodeRune s = (r, size)" by (cases "DecodeRune s")
    show ?thesis
    proof (cases "IsSpace r")
      case True
      with 1 False d obtain n where "TrimLeftSpace (drop size s) = drop n (drop size s)"
        by (metis (no_types))
      with True False d have "TrimLeftSpace s = drop (n + size) s"
        by (subst TrimLeftSpace.simps) simp
      then show ?thesis ..
    next
      case False
      with \<open>s \<noteq> []\<close> d have "TrimLeftSpace s = drop 0 s"
        by (subst TrimLeftSpace.simps) simp
      then show ?thesis ..
    qed
  qed
qed

lemma TrimRightSpace_take: "\<exists>n. TrimRightSpace s = take n s"
proof (induction s rule: TrimRightSpace.induct)
  case (1 s)
  show ?case
  proof (cases "s = []")
    case True
    then show ?thesis by (simp add: TrimRightSpace.simps)
  next
    case False
    obtain r size where d: "DecodeLastRune s = (r, size)" by (cases "DecodeLastRune s")
    show ?thesis
    proof (cases "IsSpace r")
      case True
      with 1 False d obtain n
        where "TrimRightSpace (take (length s - size) s) = take n (take (length s - size) s)"
        by (metis (no_types))
      with True False d have "TrimRightSpace s = take (min n (length s - size)) s"
        by (subst TrimRightSpace.simps) simp
      then show ?thesis ..
    next
      case False
      with \<open>s \<noteq> []\<close> d have "TrimRightSpace s = take (length s) s"
        by (subst TrimRightSpace.simps) simp
      then show ?thesis ..
    qed
  qed
qed

lemma TrimSpace_sublist: "sublist (TrimSpace s) s"
proof -
  obtain n where n: "TrimLeftSpace s = drop n s"
    using TrimLeftSpace_drop by blast
  obtain m where m: "TrimRightSpace (drop n s) = take m (drop n s)"
    using TrimRightSpace_take by blast
  have "take n s @ (take m (drop n s) @ drop m (drop n s)) = s"
    unfolding append_take_drop_id ..
  then have "s = take n s @ take m (drop n s) @ drop m (drop n s)"
    by (rule sym)
  then have "sublist (take m (drop n s)) s"
    unfolding sublist_def by blast
  then show ?thesis
    by (simp add: TrimSpace_def n m)
qed

lemma TrimLeftSpace_ascii:
  "list_all (\<lambda>c. (of_char c :: nat) < 0x80) s \<Longrightarrow>
     TrimLeftSpace s = dropWhile (\<lambda>c. IsSpace (of_char c)) s"
proof (induction s)
  case Nil
  show ?case by (simp add: TrimLeftSpace.simps)
next
  case (Cons a s)
  then show ?case
    by (subst TrimLeftSpace.simps) simp
qed

lemma TrimRightSpace_ascii:
  "list_all (\<lambda>c. (of_char c :: nat) < 0x80) s \<Longrightarrow>
     TrimRightSpace s = rev (dropWhile (\<lambda>c. IsSpace (of_char c)) (rev s))"
proof (induction s rule: rev_induct)
  case Nil
  show ?case by (simp add: TrimRightSpace.simps)
next
  case (snoc a s)
  then show ?case
    by (subst TrimRightSpace.simps) (simp add: DecodeLastRune_def)
qed

lemma TrimSpace_ascii:
  assumes "list_all (\<lambda>c. (of_char c :: nat) < 0x80) s"
  shows "TrimSpace s =
           rev (dropWhile (\<lambda>c. IsSpace (of_char c)) (rev (dropWhile (\<lambda>c. IsSpace (of_char c)) s)))"
proof -
  have "set (dropWhile (\<lambda>c. IsSpace (of_char c)) s) \<subseteq> set s"
    by (rule set_dropWhileD [THEN subsetI]) 
  with assms have "list_all (\<lambda>c. (of_char c :: nat) < 0x80) (dropWhile (\<lambda>c. IsSpace (of_char c)) s)"
    by (auto simp: list_all_iff)
  then show ?thesis
    by (simp add: TrimSpace_def TrimLeftSpace_ascii [OF assms] TrimRightSpace_ascii)
qed


subsection \<open>Decimal numerals\<close>

lemma digit_char:
  assumes "n < 10"
  shows "(of_char (''0123456789'' ! n) :: nat) = 48 + n"
proof -
  from assms have "n \<in> {0, 1, 2, 3, 4, 5, 6, 7, 8, 9}" by auto
  then show ?thesis by auto
qed

lemma decimalValue_snoc: "decimalValue (s @ [c]) = 10 * decimalValue s + ((of_char c :: nat) - 48)"
  by (simp add: decimalValue_def)

lemma decimalValue_digits: "decimalValue (digits n) = n"
proof (induction n rule: digits.induct)
  case (1 n)
  show ?case
  proof (cases "n < 10")
    case True
    then show ?thesis
      by (subst digits.simps) (simp add: decimalValue_def digit_char)
  next
    case False
    with 1 have "decimalValue (digits (n div 10)) = n div 10" by simp
    with False show ?thesis
      by (subst digits.simps) (simp add: decimalValue_snoc digit_char)
  qed
qed

lemma digits_are_digits: "list_all (\<lambda>c. 48 \<le> (of_char c :: nat) \<and> (of_char c :: nat) \<le> 57) (digits n)"
proof (induction n rule: digits.induct)
  case (1 n)
  show ?case
  proof (cases "n < 10")
    case True
    then show ?thesis
      by (subst digits.simps) (simp add: digit_char)
  next
    case False
    with 1 have "list_all (\<lambda>c. 48 \<le> (of_char c :: nat) \<and> (of_char c :: nat) \<le> 57) (digits (n div 10))" by simp
    with False show ?thesis
      by (subst digits.simps) (simp add: digit_char)
  qed
qed

lemma Sprintf_d_decimal: "0 \<le> n \<Longrightarrow> int (decimalValue (Sprintf_d n)) = n"
  by (simp add: Sprintf_d_def decimalValue_digits)


subsection \<open>SELECT\<close>

text \<open>The loop over the filters writes the terms joined by \<open>AND\<close>; the counter decides
  only whether a separator comes first.\<close>

lemma BuildSelect_filters_eq:
  "BuildSelect_filters i fs b =
     b @ (if fs = [] then []
          else (if i > 0 then '' AND '' else [])
             @ Join (map (\<lambda>(k, v). escapeIdent k @ '' == '' @ [dquote] @ escapeString v @ [dquote])
                       fs) '' AND '')"
proof (induction fs arbitrary: i b)
  case Nil
  show ?case by simp
next
  case (Cons f fs)
  obtain k v where f: "f = (k, v)" by (cases f)
  show ?case
  proof (cases fs)
    case Nil
    then show ?thesis by (simp add: f)
  next
    case (Cons g gs)
    then show ?thesis using Cons.IH [of "i + 1"] by (simp add: f)
  qed
qed

lemma BuildSelect_eq:
  "BuildSelect collection filters limit sortBy sortOrder =
     ''SELECT * FROM '' @ escapeIdent collection
     @ (if filters = [] then []
        else '' WHERE ''
             @ Join (map (\<lambda>(k, v). escapeIdent k @ '' == '' @ [dquote] @ escapeString v @ [dquote])
                       filters) '' AND '')
     @ (if sortBy = [] then []
        else '' ORDER BY '' @ escapeIdent sortBy
             @ (if ToUpper sortOrder = ''DESC'' then '' DESC''
                else if ToUpper sortOrder = ''ASC'' then '' ASC'' else []))
     @ (if limit > 0 then '' LIMIT '' @ Sprintf_d limit else [])"
  by (simp add: BuildSelect_def Let_def BuildSelect_filters_eq)

text \<open>
  Claim C1. For every collection, filter map, limit, sortBy and sortOrder, the statement
  of \<open>BuildSelect\<close> is \<open>SELECT * FROM\<close> and the sanitized collection; then, only if there
  are filters, \<open>WHERE\<close> and the terms \<open>field == "value"\<close> (field sanitized, value
  escaped) joined by \<open>AND\<close>, in the order in which the map is visited; then, only if
  sortBy is not empty, \<open>ORDER BY\<close> and the sanitized field, with \<open>DESC\<close> or \<open>ASC\<close> when
  the upper-cased sortOrder is that word; then, only if the limit is positive, \<open>LIMIT\<close>
  and the limit in decimal. With no filters, an empty sortBy and limit 0 it is exactly
  \<open>SELECT * FROM\<close> and the sanitized collection. Here sanitizing deletes every backtick
  and turns every space into an underscore; escaping puts a backslash before every
  double quote; for a sort order of ASCII bytes the test on the upper-cased sort order
  holds exactly when the sort order is the word up to the case of its letters; and the
  decimal digits printed for a positive limit stand for the limit.
\<close>

theorem BuildSelect_shape:
  "BuildSelect collection filters limit sortBy sortOrder =
     ''SELECT * FROM '' @ escapeIdent collection
     @ (if filters = [] then []
        else '' WHERE ''
             @ Join (map (\<lambda>(k, v). escapeIdent k @ '' == '' @ [dquote] @ escapeString v @ [dquote])
                       filters) '' AND '')
     @ (if sortBy = [] then []
        else '' ORDER BY '' @ escapeIdent sortBy
             @ (if ToUpper sortOrder = ''DESC'' then '' DESC''
                else if ToUpper sortOrder = ''ASC'' then '' ASC'' else []))
     @ (if limit > 0 then '' LIMIT '' @ Sprintf_d limit else [])
   \<and> BuildSelect collection [] 0 [] sortOrder = ''SELECT * FROM '' @ escapeIdent collection
   \<and> escapeIdent collection =
       map (\<lambda>c. if c = CHR '' '' then CHR ''_'' else c) (filter (\<lambda>c. c \<noteq> backtick) collection)
   \<and> escapeString v =
       concat (map (\<lambda>c. if c = dquote then [backslash, dquote] else [c]) v)
   \<and> (list_all (\<lambda>c. (of_char c :: nat) < 0x80) sortOrder \<longrightarrow>
         (ToUpper sortOrder = ''DESC'' \<longleftrightarrow> map lowerByte sortOrder = ''desc'')
       \<and> (ToUpper sortOrder = ''ASC'' \<longleftrightarrow> map lowerByte sortOrder = ''asc''))
   \<and> (limit > 0 \<longrightarrow>
         int (decimalValue (Sprintf_d limit)) = limit
       \<and> list_all (\<lambda>c. 48 \<le> (of_char c :: nat) \<and> (of_char c :: nat) \<le> 57) (Sprintf_d limit))"
proof (intro conjI impI)
  assume "list_all (\<lambda>c. (of_char c :: nat) < 0x80) sortOrder"
  then show "ToUpper sortOrder = ''DESC'' \<longleftrightarrow> map lowerByte sortOrder = ''desc''"
    and "ToUpper sortOrder = ''ASC'' \<longleftrightarrow> map lowerByte sortOrder = ''asc''"
    by (rule ToUpper_word_iff)+
next
  assume "limit > 0"
  then show "int (decimalValue (Sprintf_d limit)) = limit"
    by (simp add: Sprintf_d_decimal)
  from \<open>limit > 0\<close>
  show "list_all (\<lambda>c. 48 \<le> (of_char c :: nat) \<and> (of_char c :: nat) \<le> 57) (Sprintf_d limit)"
    by (simp add: Sprintf_d_def digits_are_digits)
qed (simp_all add: BuildSelect_eq escapeIdent_eq escapeString_eq)

text \<open>An input that needs all of it: a backtick and spaces in the names, a double quote
  in a value, two filters, the sort order in lower case, a limit of three digits.\<close>

lemma Sprintf_d_120: "Sprintf_d 120 = ''120''"
  by (simp add: Sprintf_d_def digits.simps)

theorem BuildSelect_shape_witness:
  "BuildSelect (''my '' @ [backtick] @ ''users'')
     [(''first name'', ''Al'' @ [dquote] @ ''ice''), (''city'', ''Oslo'')] 120 ''age'' ''desc''
     = ''SELECT * FROM my_users WHERE first_name == '' @ [dquote] @ ''Al'' @ [backslash, dquote]
         @ ''ice'' @ [dquote] @ '' AND city == '' @ [dquote] @ ''Oslo'' @ [dquote]
         @ '' ORDER BY age DESC LIMIT 120''
   \<and> list_all (\<lambda>c. (of_char c :: nat) < 0x80) ''desc''
   \<and> ToUpper ''desc'' = ''DESC''
   \<and> decimalValue (Sprintf_d 120) = 120"
  using BuildSelect_shape [of "''my '' @ [backtick] @ ''users''"
      "[(''first name'', ''Al'' @ [dquote] @ ''ice''), (''city'', ''Oslo'')]" 120 "''age''" "''desc''"
      "''Al'' @ [dquote] @ ''ice''"]
  by (simp add: escapeIdent_eq escapeString_eq backtick_def dquote_def backslash_def lowerByte_def
      Sprintf_d_120)

text \<open>The example of the specification: one filter, a descending sort and a limit; and
  the sort order in lower case.\<close>

lemma BuildSelect_example:
  "BuildSelect ''users'' [(''name'', ''Alice'')] 5 ''age'' ''DESC'' =
     ''SELECT * FROM users WHERE name == '' @ [dquote] @ ''Alice'' @ [dquote]
       @ '' ORDER BY age DESC LIMIT 5''"
  by (simp add: BuildSelect_def Let_def escapeIdent_eq escapeString_eq backtick_def dquote_def
      Sprintf_d_def digits.simps upperByte_def)

lemma BuildSelect_example_lower:
  "BuildSelect ''users'' [] 0 ''age'' ''asc'' = ''SELECT * FROM users ORDER BY age ASC''"
  by (simp add: BuildSelect_def Let_def escapeIdent_eq backtick_def upperByte_def)

subsection \<open>UPDATE\<close>

text \<open>The loop over the patch: the clauses in the order of the entries, and the arguments
  added to the map one assignment after the other (a later one would win).\<close>

lemma map_upd_add_map_of: "m(k \<mapsto> v) ++ map_of xs = m ++ map_of (xs @ [(k, v)])"
  by (rule ext) (simp add: map_add_def split: option.split)

lemma BuildUpdate_patch_eq:
  "BuildUpdate_patch ps parts args =
     (parts @ map (\<lambda>(k, v). escapeIdent k @ '' = :p_'' @ k) ps,
      args ++ map_of (rev (map (\<lambda>(k, v). (''p_'' @ k, v)) ps)))"
proof (induction ps arbitrary: parts args)
  case Nil
  show ?case by simp
next
  case (Cons p ps)
  obtain k v where p: "p = (k, v)" by (cases p)
  have "BuildUpdate_patch (p # ps) parts args =
          BuildUpdate_patch ps (parts @ [escapeIdent k @ '' = :p_'' @ k]) (args(''p_'' @ k \<mapsto> v))"
    by (simp add: p Let_def)
  also have "\<dots> = ((parts @ [escapeIdent k @ '' = :p_'' @ k]) @ map (\<lambda>(k, v). escapeIdent k @ '' = :p_'' @ k) ps,
                    args(''p_'' @ k \<mapsto> v) ++ map_of (rev (map (\<lambda>(k, v). (''p_'' @ k, v)) ps)))"
    by (rule Cons.IH)
  also have "\<dots> = (parts @ map (\<lambda>(k, v). escapeIdent k @ '' = :p_'' @ k) (p # ps),
                    args ++ map_of (rev (map (\<lambda>(k, v). (''p_'' @ k, v)) (p # ps))))"
    unfolding map_upd_add_map_of by (simp add: p)
  finally show ?case .
qed

lemma patch_args_id:
  "([''id'' \<mapsto> x] ++ map_of (rev (map (\<lambda>(k, v). (''p_'' @ k, v)) ps))) ''id'' = Some x"
proof -
  have "''id'' \<notin> fst ` set (rev (map (\<lambda>(k, v). (''p_'' @ k, v)) ps))"
    by auto
  then have "map_of (rev (map (\<lambda>(k, v). (''p_'' @ k, v)) ps)) ''id'' = None"
    unfolding map_of_eq_None_iff .
  then show ?thesis
    by (simp add: map_add_def)
qed

lemma patch_args_field:
  assumes "distinct (map fst ps)" and "(k, v) \<in> set ps"
  shows "(m ++ map_of (rev (map (\<lambda>(k, v). (''p_'' @ k, v)) ps))) (''p_'' @ k) = Some v"
proof -
  let ?l = "map (\<lambda>(k, v). (''p_'' @ k, v)) ps"
  have fst_l: "map fst ?l = map (\<lambda>k. ''p_'' @ k) (map fst ps)"
    by (simp add: case_prod_unfold comp_def)
  have "distinct (map fst ?l)"
    unfolding fst_l using assms(1) by (simp add: distinct_map inj_on_def)
  then have "distinct (map fst (rev ?l))"
    by (simp add: rev_map [symmetric])
  moreover have "(''p_'' @ k, v) \<in> set (rev ?l)"
    using assms(2) by force
  ultimately have "map_of (rev ?l) (''p_'' @ k) = Some v"
    by (rule map_of_is_SomeI)
  then show ?thesis
    by (simp add: map_add_def)
qed

lemma patch_args_dom:
  "dom ([''id'' \<mapsto> x] ++ map_of (rev (map (\<lambda>(k, v). (''p_'' @ k, v)) ps)))
     = insert ''id'' ((\<lambda>k. ''p_'' @ k) ` fst ` set ps)"
  by (force simp: dom_map_of_conv_image_fst)


lemma BuildUpdate_eq:
  assumes "collection \<noteq> []" and "id' \<noteq> []" and "patch \<noteq> []"
  shows "BuildUpdate collection id' patch =
          Inr (''UPDATE '' @ escapeIdent collection @ '' SET ''
                 @ Join (map (\<lambda>(k, v). escapeIdent k @ '' = :p_'' @ k) patch) '', ''
                 @ '' WHERE _id == :id'',
               [''id'' \<mapsto> VString id'] ++ map_of (rev (map (\<lambda>(k, v). (''p_'' @ k, v)) patch)))"
  unfolding BuildUpdate_def BuildUpdate_patch_eq using assms by simp

text \<open>
  Claim C2. For a collection, an id and a patch that are not empty (the patch with
  distinct keys, as a map has), \<open>BuildUpdate\<close> succeeds. Its statement is
  \<open>UPDATE <sanitized collection> SET <clauses> WHERE _id == :id\<close>, one clause
  \<open><sanitized k> = :p_<k>\<close> per field \<open>k\<close> of the patch, joined by a comma; its
  arguments bind \<open>id\<close> to the id and each \<open>p_<k>\<close> to the value of \<open>k\<close>, and nothing
  else. Sanitizing deletes every backtick and turns every space into an underscore.
\<close>

theorem BuildUpdate_ok:
  assumes "collection \<noteq> []" and "id' \<noteq> []" and "patch \<noteq> []" and "distinct (map fst patch)"
  shows "(\<exists>args.
           BuildUpdate collection id' patch =
             Inr (''UPDATE '' @ escapeIdent collection @ '' SET ''
                    @ Join (map (\<lambda>(k, v). escapeIdent k @ '' = :p_'' @ k) patch) '', ''
                    @ '' WHERE _id == :id'', args)
         \<and> args ''id'' = Some (VString id')
         \<and> (\<forall>(k, v) \<in> set patch. args (''p_'' @ k) = Some v)
         \<and> dom args = insert ''id'' ((\<lambda>k. ''p_'' @ k) ` fst ` set patch))
       \<and> escapeIdent collection =
           map (\<lambda>c. if c = CHR '' '' then CHR ''_'' else c) (filter (\<lambda>c. c \<noteq> backtick) collection)"
proof (intro conjI exI)
  show "BuildUpdate collection id' patch =
          Inr (''UPDATE '' @ escapeIdent collection @ '' SET ''
                 @ Join (map (\<lambda>(k, v). escapeIdent k @ '' = :p_'' @ k) patch) '', ''
                 @ '' WHERE _id == :id'',
               [''id'' \<mapsto> VString id'] ++ map_of (rev (map (\<lambda>(k, v). (''p_'' @ k, v)) patch)))"
    using assms(1-3) by (rule BuildUpdate_eq)
  show "([''id'' \<mapsto> VString id'] ++ map_of (rev (map (\<lambda>(k, v). (''p_'' @ k, v)) patch))) ''id''
          = Some (VString id')"
    by (rule patch_args_id)
  show "\<forall>(k, v) \<in> set patch.
          ([''id'' \<mapsto> VString id'] ++ map_of (rev (map (\<lambda>(k, v). (''p_'' @ k, v)) patch)))
            (''p_'' @ k) = Some v"
  proof (intro ballI, clarify)
    fix k v assume "(k, v) \<in> set patch"
    with assms(4) show "([''id'' \<mapsto> VString id'] ++ map_of (rev (map (\<lambda>(k, v). (''p_'' @ k, v)) patch)))
            (''p_'' @ k) = Some v"
      by (rule patch_args_field)
  qed
  show "dom ([''id'' \<mapsto> VString id'] ++ map_of (rev (map (\<lambda>(k, v). (''p_'' @ k, v)) patch)))
          = insert ''id'' ((\<lambda>k. ''p_'' @ k) ` fst ` set patch)"
    by (rule patch_args_dom)
  show "escapeIdent collection =
           map (\<lambda>c. if c = CHR '' '' then CHR ''_'' else c) (filter (\<lambda>c. c \<noteq> backtick) collection)"
    by (rule escapeIdent_eq)
qed

text \<open>The example of the specification, patch \<open>{"age": 31}\<close> and id \<open>u1\<close>; and a
  collection and a field that need sanitizing (the parameter keeps the field as it
  is).\<close>

theorem BuildUpdate_ok_witness:
  "(\<exists>args. BuildUpdate ''users'' ''u1'' [(''age'', VInt 31)] =
                Inr (''UPDATE users SET age = :p_age WHERE _id == :id'', args)
            \<and> args ''id'' = Some (VString ''u1'')
            \<and> args ''p_age'' = Some (VInt 31)
            \<and> dom args = {''id'', ''p_age''})
   \<and> (\<exists>args. BuildUpdate (''my '' @ [backtick] @ ''users'') ''u 1''
                [(''first name'', VString ''Al''), (''age'', VInt 31)] =
                Inr (''UPDATE my_users SET first_name = :p_first name, age = :p_age WHERE _id == :id'',
                     args)
            \<and> args ''id'' = Some (VString ''u 1'')
            \<and> args ''p_first name'' = Some (VString ''Al'')
            \<and> args ''p_age'' = Some (VInt 31)
            \<and> dom args = {''id'', ''p_first name'', ''p_age''})"
  using BuildUpdate_ok [of "''users''" "''u1''" "[(''age'', VInt 31)]"]
    BuildUpdate_ok [of "''my '' @ [backtick] @ ''users''" "''u 1''"
      "[(''first name'', VString ''Al''), (''age'', VInt 31)]"]
  by (simp add: escapeIdent_eq backtick_def)

text \<open>
  Claim C3. \<open>BuildUpdate\<close> returns an error if and only if the collection, the id or
  the patch is empty; the error is one of its two validation errors, and \<open>UpdateRecord\<close>
  returns it without handing any request to the HTTP client.
\<close>

theorem BuildUpdate_error_iff:
  "((\<exists>e. BuildUpdate collection id' patch = Inl e)
      \<longleftrightarrow> collection = [] \<or> id' = [] \<or> patch = [])
   \<and> (\<forall>e. BuildUpdate collection id' patch = Inl e \<longrightarrow>
          (e = Error ''collection and id required'' \<or> e = Error ''patch is empty'')
          \<and> UpdateRecord s lib ctx collection id' patch = (Inl e, []))"
  by (simp add: BuildUpdate_def UpdateRecord_def BuildUpdate_patch_eq)

theorem BuildUpdate_error_iff_witness:
  "BuildUpdate ''users'' ''u1'' [] = Inl (Error ''patch is empty'')
   \<and> UpdateRecord (example_service 200 ''null'') example_lib () ''users'' ''u1'' []
       = (Inl (Error ''patch is empty''), [])"
  using BuildUpdate_error_iff
    [of "''users''" "''u1''" "[]" "example_service 200 ''null''" example_lib "()"]
  by (simp add: BuildUpdate_def)

subsection \<open>INSERT\<close>

text \<open>
  Claim C4. For every collection and every document, \<open>BuildInsert\<close> returns an error if
  and only if the collection is empty; otherwise it returns the statement
  \<open>INSERT INTO <sanitized collection> DOCUMENTS (:doc)\<close> and an argument map whose only
  key is \<open>doc\<close>, bound to the document as it was given. Sanitizing deletes every
  backtick and turns every space into an underscore.
\<close>

theorem BuildInsert_spec:
  "((\<exists>e. BuildInsert collection doc = Inl e) \<longleftrightarrow> collection = [])
   \<and> (collection \<noteq> [] \<longrightarrow>
        (\<exists>args. BuildInsert collection doc =
                  Inr (''INSERT INTO '' @ escapeIdent collection @ '' DOCUMENTS (:doc)'', args)
               \<and> args = [''doc'' \<mapsto> VMap doc]
               \<and> dom args = {''doc''} \<and> args ''doc'' = Some (VMap doc)))
   \<and> escapeIdent collection =
       map (\<lambda>c. if c = CHR '' '' then CHR ''_'' else c) (filter (\<lambda>c. c \<noteq> backtick) collection)"
  by (simp add: BuildInsert_def escapeIdent_eq [symmetric])

theorem BuildInsert_spec_witness:
  "(\<exists>args. BuildInsert ''users'' [(''name'', VString ''Alice''), (''age'', VInt 30)] =
                Inr (''INSERT INTO users DOCUMENTS (:doc)'', args)
            \<and> dom args = {''doc''}
            \<and> args ''doc'' = Some (VMap [(''name'', VString ''Alice''), (''age'', VInt 30)]))
   \<and> BuildInsert (''my '' @ [backtick] @ ''users'') [] =
        Inr (''INSERT INTO my_users DOCUMENTS (:doc)'', [''doc'' \<mapsto> VMap []])"
  using BuildInsert_spec [of "''users''" "[(''name'', VString ''Alice''), (''age'', VInt 30)]"]
    BuildInsert_spec [of "''my '' @ [backtick] @ ''users''" "[]"]
  by (simp add: backtick_def)

section \<open>Properties of the service\<close>

subsection \<open>Responses\<close>

text \<open>Go's integer division truncates towards zero; a status code has the quotient 2
  by 100 exactly when it lies between 200 and 299.\<close>

lemma status_2xx: "(c sdiv 100 = 2) \<longleftrightarrow> (200 \<le> c \<and> c \<le> (299::int))"
proof (cases "0 \<le> c")
  case True
  then have "c sdiv 100 = c div 100"
    by (simp add: signed_divide_int_def sgn_if)
  then show ?thesis by auto
next
  case False
  then have "c sdiv 100 = - ((- c) div 100)"
    by (simp add: signed_divide_int_def sgn_if)
  with False show ?thesis by auto
qed

text \<open>What \<open>exec\<close> and \<open>execWithArgs\<close> return once the request was built and the
  server answered.\<close>

lemma exec_result:
  assumes "NewRequestWithContext lib ctx ''POST''
             (TrimRight (BaseURL s) ''/'' @ ''/'' @ AppID s @ ''/execute'') = None"
    and "HTTP s ctx \<lparr> reqMethod = ''POST'',
                      url = TrimRight (BaseURL s) ''/'' @ ''/'' @ AppID s @ ''/execute'',
                      contentType = ''application/json'', query = q, query_args = None \<rparr> = Inr resp"
  shows "fst (exec s lib ctx q) =
           (if 200 \<le> StatusCode resp \<and> StatusCode resp \<le> 299 then Decode lib (Body resp)
            else Inl (Error (''ditto http '' @ Sprintf_d (StatusCode resp) @ '': ''
                   @ TrimSpace (if length (Body resp) > 256 then take 256 (Body resp) @ ''...''
                                else Body resp)
                   @ '' | query: '' @ (if length q > 200 then take 200 q @ ''...'' else q))))"
  using assms by (simp add: exec_def Let_def status_2xx split: sum.split)

lemma execWithArgs_result:
  assumes "NewRequestWithContext lib ctx ''POST''
             (TrimRight (BaseURL s) ''/'' @ ''/'' @ AppID s @ ''/execute'') = None"
    and "HTTP s ctx \<lparr> reqMethod = ''POST'',
                      url = TrimRight (BaseURL s) ''/'' @ ''/'' @ AppID s @ ''/execute'',
                      contentType = ''application/json'', query = q, query_args = args \<rparr> = Inr resp"
  shows "fst (execWithArgs s lib ctx q args) =
           (if 200 \<le> StatusCode resp \<and> StatusCode resp \<le> 299 then Decode lib (Body resp)
            else Inl (Error (''ditto http '' @ Sprintf_d (StatusCode resp) @ '': ''
                   @ TrimSpace (if length (Body resp) > 256 then take 256 (Body resp) @ ''...''
                                else Body resp)
                   @ '' | query: '' @ (if length q > 200 then take 200 q @ ''...'' else q))))"
  using assms by (simp add: execWithArgs_def Let_def status_2xx split: sum.split)

text \<open>The parts of the error message.\<close>

lemma message_contains:
  "sublist code (''ditto http '' @ code @ '': '' @ snippet @ '' | query: '' @ q')"
  "sublist snippet (''ditto http '' @ code @ '': '' @ snippet @ '' | query: '' @ q')"
  "sublist (take 200 q) (''ditto http '' @ code @ '': '' @ snippet @ '' | query: ''
                           @ (if length q > 200 then take 200 q @ ''...'' else q))"
proof -
  show "sublist code (''ditto http '' @ code @ '': '' @ snippet @ '' | query: '' @ q')"
    unfolding sublist_def by blast
  have "sublist snippet ((''ditto http '' @ code @ '': '') @ snippet @ ('' | query: '' @ q'))"
    unfolding sublist_def by blast
  then show "sublist snippet (''ditto http '' @ code @ '': '' @ snippet @ '' | query: '' @ q')"
    by simp
  have "sublist (take 200 q) ((''ditto http '' @ code @ '': '' @ snippet @ '' | query: '') @ take 200 q @ r)" for r
    unfolding sublist_def by blast
  note pre = this
  show "sublist (take 200 q) (''ditto http '' @ code @ '': '' @ snippet @ '' | query: ''
                           @ (if length q > 200 then take 200 q @ ''...'' else q))"
  proof (cases "length q > 200")
    case True
    with pre [of "''...''"] show ?thesis by simp
  next
    case False
    then have "take 200 q @ [] = q" by simp
    with pre [of "[]"] False show ?thesis by (simp del: take_all_iff)
  qed
qed


text \<open>
  Claim C5, as amended. When the request was built and the server answered with a
  status code outside 200..299, \<open>exec\<close> and \<open>execWithArgs\<close> return an error and no
  value; its message is \<open>ditto http <code>: <snippet> | query: <query>\<close>, where the
  snippet is the body cut to 256 bytes (with \<open>...\<close> appended when it was cut) and then
  stripped of white space at both ends, and the query is cut to 200 bytes (with \<open>...\<close>
  appended when it was cut); so the message contains the code in decimal, the stripped
  snippet and the first 200 bytes of the query. With a status code in 200..299 the
  body is decoded and the result returned. Stripping keeps a part of the snippet; on
  ASCII it drops the six ASCII white space bytes from both ends; it also drops a
  no-break space and a line separator, and keeps a byte that is no rune.
\<close>

theorem exec_response:
  assumes "NewRequestWithContext lib ctx ''POST''
             (TrimRight (BaseURL s) ''/'' @ ''/'' @ AppID s @ ''/execute'') = None"
    and "HTTP s ctx \<lparr> reqMethod = ''POST'',
                      url = TrimRight (BaseURL s) ''/'' @ ''/'' @ AppID s @ ''/execute'',
                      contentType = ''application/json'', query = q, query_args = None \<rparr> = Inr resp"
    and "HTTP s ctx \<lparr> reqMethod = ''POST'',
                      url = TrimRight (BaseURL s) ''/'' @ ''/'' @ AppID s @ ''/execute'',
                      contentType = ''application/json'', query = q, query_args = args \<rparr> = Inr resp"
  shows "(200 \<le> StatusCode resp \<and> StatusCode resp \<le> 299 \<longrightarrow>
            fst (exec s lib ctx q) = Decode lib (Body resp)
          \<and> fst (execWithArgs s lib ctx q args) = Decode lib (Body resp))
       \<and> (\<not> (200 \<le> StatusCode resp \<and> StatusCode resp \<le> 299) \<longrightarrow>
            (\<exists>snippet msg.
               snippet = (if length (Body resp) > 256 then take 256 (Body resp) @ ''...''
                          else Body resp)
             \<and> msg = ''ditto http '' @ Sprintf_d (StatusCode resp) @ '': '' @ TrimSpace snippet
                       @ '' | query: '' @ (if length q > 200 then take 200 q @ ''...'' else q)
             \<and> fst (exec s lib ctx q) = Inl (Error msg)
             \<and> fst (execWithArgs s lib ctx q args) = Inl (Error msg)
             \<and> sublist (Sprintf_d (StatusCode resp)) msg
             \<and> sublist (TrimSpace snippet) msg
             \<and> sublist (TrimSpace snippet) snippet
             \<and> sublist (take 200 q) msg))
       \<and> (list_all (\<lambda>c. (of_char c :: nat) < 0x80) (Body resp) \<longrightarrow>
            TrimSpace (Body resp) =
              rev (dropWhile (\<lambda>c. IsSpace (of_char c))
                     (rev (dropWhile (\<lambda>c. IsSpace (of_char c)) (Body resp)))))
       \<and> TrimSpace ([CHR 0xC2, CHR 0xA0] @ ''boom'' @ [CHR 0xE2, CHR 0x80, CHR 0xA8, CHR 0x0A])
           = ''boom''
       \<and> TrimSpace (''a b'' @ [CHR 0xC2]) = ''a b'' @ [CHR 0xC2]"
proof (intro conjI)
  show "200 \<le> StatusCode resp \<and> StatusCode resp \<le> 299 \<longrightarrow>
            fst (exec s lib ctx q) = Decode lib (Body resp)
          \<and> fst (execWithArgs s lib ctx q args) = Decode lib (Body resp)"
    using exec_result [OF assms(1) assms(2)] execWithArgs_result [OF assms(1) assms(3)]
    by simp
  show "\<not> (200 \<le> StatusCode resp \<and> StatusCode resp \<le> 299) \<longrightarrow>
            (\<exists>snippet msg.
               snippet = (if length (Body resp) > 256 then take 256 (Body resp) @ ''...''
                          else Body resp)
             \<and> msg = ''ditto http '' @ Sprintf_d (StatusCode resp) @ '': '' @ TrimSpace snippet
                       @ '' | query: '' @ (if length q > 200 then take 200 q @ ''...'' else q)
             \<and> fst (exec s lib ctx q) = Inl (Error msg)
             \<and> fst (execWithArgs s lib ctx q args) = Inl (Error msg)
             \<and> sublist (Sprintf_d (StatusCode resp)) msg
             \<and> sublist (TrimSpace snippet) msg
             \<and> sublist (TrimSpace snippet) snippet
             \<and> sublist (take 200 q) msg)"
    using exec_result [OF assms(1) assms(2)] execWithArgs_result [OF assms(1) assms(3)]
      message_contains TrimSpace_sublist
    by simp
  show "list_all (\<lambda>c. (of_char c :: nat) < 0x80) (Body resp) \<longrightarrow>
            TrimSpace (Body resp) =
              rev (dropWhile (\<lambda>c. IsSpace (of_char c))
                     (rev (dropWhile (\<lambda>c. IsSpace (of_char c)) (Body resp))))"
    using TrimSpace_ascii by blast
  show "TrimSpace ([CHR 0xC2, CHR 0xA0] @ ''boom'' @ [CHR 0xE2, CHR 0x80, CHR 0xA8, CHR 0x0A])
           = ''boom''"
    by (simp add: utf8_eval)
  show "TrimSpace (''a b'' @ [CHR 0xC2]) = ''a b'' @ [CHR 0xC2]"
    by (simp add: utf8_eval)
qed

lemma Sprintf_d_500: "Sprintf_d 500 = ''500''"
  by (simp add: Sprintf_d_def digits.simps)

lemma TrimSpace_boom: "TrimSpace [CHR ''b'', CHR ''o'', CHR ''o'', CHR ''m'', CHR 0x0A] = ''boom''"
  by (simp add: utf8_eval)

lemma TrimSpace_nbsp_boom:
  "TrimSpace [CHR 0xC2, CHR 0xA0, CHR ''b'', CHR ''o'', CHR ''o'', CHR ''m'', CHR 0x0A] = ''boom''"
  by (simp add: utf8_eval)

theorem exec_response_witness:
  "fst (exec (example_service 500 ([CHR 0xC2, CHR 0xA0] @ ''boom'' @ [CHR 0x0A])) example_lib ()
          ''SELECT * FROM users'')
     = Inl (Error ''ditto http 500: boom | query: SELECT * FROM users'')
   \<and> fst (execWithArgs (example_service 500 ([CHR 0xC2, CHR 0xA0] @ ''boom'' @ [CHR 0x0A]))
            example_lib () ''SELECT * FROM users'' None)
     = Inl (Error ''ditto http 500: boom | query: SELECT * FROM users'')
   \<and> fst (exec (example_service 200 ''null'') example_lib () ''SELECT * FROM users'') = Inr VNil
   \<and> fst (execWithArgs (example_service 200 ''null'') example_lib () ''SELECT * FROM users'' None)
     = Inr VNil
   \<and> TrimSpace '' null '' = ''null''"
  using exec_response [of example_lib "()"
          "example_service 500 ([CHR 0xC2, CHR 0xA0] @ ''boom'' @ [CHR 0x0A])"
          "''SELECT * FROM users''"
          "\<lparr> StatusCode = 500, Body = [CHR 0xC2, CHR 0xA0] @ ''boom'' @ [CHR 0x0A] \<rparr>" None]
        exec_response [of example_lib "()" "example_service 200 '' null ''"
          "''SELECT * FROM users''" "\<lparr> StatusCode = 200, Body = '' null '' \<rparr>" None]
        exec_response [of example_lib "()" "example_service 200 ''null''"
          "''SELECT * FROM users''" "\<lparr> StatusCode = 200, Body = ''null'' \<rparr>" None]
  by (simp add: example_lib_def example_service_def Sprintf_d_500 TrimSpace_nbsp_boom IsSpace_def)

text \<open>
  Claim C5 as it was stated has the message contain the body cut to 256 characters. The
  body \<open>boom\<close> followed by a line feed is shorter than that, and the message for it does
  not contain it: the line feed was stripped.
\<close>

theorem exec_body_verbatim_counterexample:
  "fst (execWithArgs (example_service 500 (''boom'' @ [CHR 0x0A])) example_lib ()
          ''SELECT * FROM users'' None)
     = Inl (Error ''ditto http 500: boom | query: SELECT * FROM users'')
   \<and> \<not> sublist (''boom'' @ [CHR 0x0A]) ''ditto http 500: boom | query: SELECT * FROM users''"
proof
  show "fst (execWithArgs (example_service 500 (''boom'' @ [CHR 0x0A])) example_lib ()
          ''SELECT * FROM users'' None)
     = Inl (Error ''ditto http 500: boom | query: SELECT * FROM users'')"
    by (simp add: execWithArgs_def Let_def example_lib_def example_service_def status_2xx
        Sprintf_d_500 TrimSpace_boom)
  show "\<not> sublist (''boom'' @ [CHR 0x0A]) ''ditto http 500: boom | query: SELECT * FROM users''"
  proof
    assume "sublist (''boom'' @ [CHR 0x0A]) ''ditto http 500: boom | query: SELECT * FROM users''"
    then have "set (''boom'' @ [CHR 0x0A]) \<subseteq> set ''ditto http 500: boom | query: SELECT * FROM users''"
      by (rule set_mono_sublist)
    then show False by simp
  qed
qed


section \<open>Properties of the container runners\<close>

lemma HasPrefix_iff: "HasPrefix s p \<longleftrightarrow> prefix p s"
proof
  assume "HasPrefix s p"
  then have "s = p @ drop (length p) s"
    unfolding HasPrefix_def by (metis append_take_drop_id)
  then show "prefix p s" by (metis prefixI)
next
  assume "prefix p s"
  then show "HasPrefix s p" by (auto simp: HasPrefix_def prefix_def)
qed

text \<open>The status on a machine that prints \<open>out\<close>.\<close>

lemma status_eval:
  "fst (dockerRunnerDefault_ContainerStatus lower (example_os out) () name w0) =
     Inr (let s = ToLower lower (TrimSpace out)
          in if s = [] then ''not-found''
             else if prefix ''up '' s then ''running''
             else if prefix ''exited '' s then ''exited''
             else s)"
  by (simp add: dockerRunnerDefault_ContainerStatus_def example_os_def Let_def HasPrefix_iff)

text \<open>An output with a capital outside ASCII and a byte that is no rune, in lower case
  by the example table.\<close>

lemma out_example_unicode:
  "ToLower example_lower
     (TrimSpace [CHR 0xC3, CHR 0x89, CHR ''T'', CHR ''A'', CHR ''T'', CHR '' '', CHR 0xFF, CHR 0x0A])
     = [CHR 0xC3, CHR 0xA9, CHR ''t'', CHR ''a'', CHR ''t'', CHR '' '', CHR 0xEF, CHR 0xBF, CHR 0xBD]"
  by (simp add: utf8_eval example_lower_def)

text \<open>
  Claim C6. Both runners classify the output of the process list, trimmed and in lower
  case, by its beginning: empty gives \<open>not-found\<close>, \<open>up \<close> gives \<open>running\<close>,
  \<open>exited \<close> gives \<open>exited\<close>, and anything else is returned as it is (trimmed, lower
  case); a failing command gives an error. The compose runner does exactly what the
  plain runner does. On ASCII output, trimming drops the six ASCII white space bytes
  from both ends and lower case is taken byte by byte. \<open>Up 3 hours\<close> is running,
  \<open>Exited (0) 2 minutes ago\<close> is exited, no output is not-found; so are these outputs
  with white space around them and in capitals, a line feed alone, and white space
  outside ASCII alone; \<open>Created\<close> with a line feed is returned as \<open>created\<close>, and a
  capital outside ASCII is returned in lower case.
\<close>

theorem ContainerStatus_classifies:
  "dockerRunnerDefault_ContainerStatus lower os ctx name w =
     (case os ctx ''bash'' [''-lc'', psCommand name] w of
        ((out, Some e), w') \<Rightarrow> (Inl (Wrap ''docker ps: '' e), w')
      | ((out, None), w') \<Rightarrow>
          (let s = ToLower lower (TrimSpace out)
           in (Inr (if s = [] then ''not-found''
                    else if prefix ''up '' s then ''running''
                    else if prefix ''exited '' s then ''exited''
                    else s), w')))
   \<and> composeRunnerDefault_ContainerStatus lower os ctx name w
       = dockerRunnerDefault_ContainerStatus lower os ctx name w
   \<and> (list_all (\<lambda>c. (of_char c :: nat) < 0x80) out \<longrightarrow>
         TrimSpace out =
           rev (dropWhile (\<lambda>c. IsSpace (of_char c)) (rev (dropWhile (\<lambda>c. IsSpace (of_char c)) out)))
       \<and> ToLower lower out = map lowerByte out)
   \<and> fst (dockerRunnerDefault_ContainerStatus lower (example_os ''Up 3 hours'') () name w0)
       = Inr ''running''
   \<and> fst (dockerRunnerDefault_ContainerStatus lower (example_os ''Exited (0) 2 minutes ago'') ()
            name w0)
       = Inr ''exited''
   \<and> fst (dockerRunnerDefault_ContainerStatus lower (example_os []) () name w0) = Inr ''not-found''
   \<and> fst (dockerRunnerDefault_ContainerStatus lower
            (example_os ('' UP 3 Hours'' @ [CHR 0x0D, CHR 0x0A])) () name w0)
       = Inr ''running''
   \<and> fst (dockerRunnerDefault_ContainerStatus lower (example_os [CHR 0x0A]) () name w0)
       = Inr ''not-found''
   \<and> fst (dockerRunnerDefault_ContainerStatus lower
            (example_os [CHR 0xC2, CHR 0xA0, CHR 0xE3, CHR 0x80, CHR 0x80]) () name w0)
       = Inr ''not-found''
   \<and> fst (dockerRunnerDefault_ContainerStatus lower (example_os (''Created'' @ [CHR 0x0A])) ()
            name w0)
       = Inr ''created''
   \<and> fst (dockerRunnerDefault_ContainerStatus example_lower
            (example_os [CHR 0xC3, CHR 0x89, CHR ''T'', CHR ''A'', CHR ''T'', CHR '' '',
                         CHR 0xFF, CHR 0x0A]) () name w0)
       = Inr [CHR 0xC3, CHR 0xA9, CHR ''t'', CHR ''a'', CHR ''t'', CHR '' '',
              CHR 0xEF, CHR 0xBF, CHR 0xBD]"
proof (intro conjI impI)
  show "dockerRunnerDefault_ContainerStatus lower os ctx name w =
     (case os ctx ''bash'' [''-lc'', psCommand name] w of
        ((out, Some e), w') \<Rightarrow> (Inl (Wrap ''docker ps: '' e), w')
      | ((out, None), w') \<Rightarrow>
          (let s = ToLower lower (TrimSpace out)
           in (Inr (if s = [] then ''not-found''
                    else if prefix ''up '' s then ''running''
                    else if prefix ''exited '' s then ''exited''
                    else s), w')))"
    by (simp add: dockerRunnerDefault_ContainerStatus_def Let_def HasPrefix_iff
        split: prod.split option.split)
  show "composeRunnerDefault_ContainerStatus lower os ctx name w
          = dockerRunnerDefault_ContainerStatus lower os ctx name w"
    by (simp add: composeRunnerDefault_ContainerStatus_def dockerRunnerDefault_ContainerStatus_def)
next
  assume ascii: "list_all (\<lambda>c. (of_char c :: nat) < 0x80) out"
  then show "TrimSpace out =
           rev (dropWhile (\<lambda>c. IsSpace (of_char c)) (rev (dropWhile (\<lambda>c. IsSpace (of_char c)) out)))"
    by (rule TrimSpace_ascii)
  from ascii show "ToLower lower out = map lowerByte out"
    by (rule ToLower_ascii)
next
  show "fst (dockerRunnerDefault_ContainerStatus example_lower
            (example_os [CHR 0xC3, CHR 0x89, CHR ''T'', CHR ''A'', CHR ''T'', CHR '' '',
                         CHR 0xFF, CHR 0x0A]) () name w0)
       = Inr [CHR 0xC3, CHR 0xA9, CHR ''t'', CHR ''a'', CHR ''t'', CHR '' '',
              CHR 0xEF, CHR 0xBF, CHR 0xBD]"
    by (simp add: status_eval out_example_unicode)
qed (simp_all add: status_eval utf8_eval)

theorem ContainerStatus_classifies_witness:
  "dockerRunnerDefault_ContainerStatus example_lower
     (example_os (''Up 3 hours'' @ [CHR 0x0A])) () ''ditto-edge'' []
     = (Inr ''running'', [[''bash'', ''-lc'', psCommand ''ditto-edge'']])
   \<and> composeRunnerDefault_ContainerStatus example_lower
     (example_os (''Up 3 hours'' @ [CHR 0x0A])) () ''ditto-edge'' []
     = (Inr ''running'', [[''bash'', ''-lc'', psCommand ''ditto-edge'']])
   \<and> list_all (\<lambda>c. (of_char c :: nat) < 0x80) '' Up 3 Hours ''
   \<and> TrimSpace '' Up 3 Hours '' = ''Up 3 Hours''
   \<and> ToLower example_lower '' Up 3 Hours '' = '' up 3 hours ''"
proof -
  note t = ContainerStatus_classifies [of example_lower
      "example_os (''Up 3 hours'' @ [CHR 0x0A])" "()" "''ditto-edge''" "[]" "'' Up 3 Hours ''"]
  have ascii: "list_all (\<lambda>c. (of_char c :: nat) < 0x80) '' Up 3 Hours ''"
    by simp
  have e: "ToLower example_lower
             (TrimSpace [CHR ''U'', CHR ''p'', CHR '' '', CHR ''3'', CHR '' '', CHR ''h'', CHR ''o'',
                         CHR ''u'', CHR ''r'', CHR ''s'', CHR 0x0A]) = ''up 3 hours''"
    by (simp add: utf8_eval)
  have d: "dockerRunnerDefault_ContainerStatus example_lower
     (example_os (''Up 3 hours'' @ [CHR 0x0A])) () ''ditto-edge'' []
     = (Inr ''running'', [[''bash'', ''-lc'', psCommand ''ditto-edge'']])"
    using t [THEN conjunct1] by (simp add: example_os_def e)
  have c: "composeRunnerDefault_ContainerStatus example_lower
     (example_os (''Up 3 hours'' @ [CHR 0x0A])) () ''ditto-edge'' []
     = (Inr ''running'', [[''bash'', ''-lc'', psCommand ''ditto-edge'']])"
    using t [THEN conjunct2, THEN conjunct1] d by simp
  have g: "TrimSpace '' Up 3 Hours '' =
           rev (dropWhile (\<lambda>c. IsSpace (of_char c))
                  (rev (dropWhile (\<lambda>c. IsSpace (of_char c)) '' Up 3 Hours '')))
       \<and> ToLower example_lower '' Up 3 Hours '' = map lowerByte '' Up 3 Hours ''"
    using t [THEN conjunct2, THEN conjunct2, THEN conjunct1] ascii by (rule mp)
  have "TrimSpace '' Up 3 Hours '' = ''Up 3 Hours''"
    unfolding g [THEN conjunct1] by (simp add: IsSpace_def)
  moreover have "ToLower example_lower '' Up 3 Hours '' = '' up 3 hours ''"
    unfolding g [THEN conjunct2] by (simp add: lowerByte_def)
  ultimately show ?thesis
    using d c ascii by blast
qed

section \<open>Properties of start and shutdown\<close>

lemma example_docker_service_simps:
  "docker (example_docker_service st) = Some (NewDockerRunnerDefault example_lower (example_os st))"
  "dockerOpts (example_docker_service st) = example_opts"
  by (simp_all add: example_docker_service_def WithDocker_def)

lemma example_opts_simps:
  "ImageName example_opts = ''dittoedge/server:latest''"
  "ImageTarPath example_opts = []"
  "ContainerName example_opts = ''ditto-edge''"
  by (simp_all add: example_opts_def)

lemma example_EnsureImageLoaded:
  "EnsureImageLoaded (NewDockerRunnerDefault example_lower (example_os st)) () (ImageName example_opts)
     (ImageTarPath example_opts) [] =
     (None, [[''docker'', ''image'', ''inspect'', ''dittoedge/server:latest'']])"
  by (simp add: NewDockerRunnerDefault_def dockerRunnerDefault_EnsureImageLoaded_def runCmd_def
      example_os_def example_opts_def)

lemma example_ContainerStatus_exited:
  "ContainerStatus (NewDockerRunnerDefault example_lower (example_os ''Exited (0) 2 minutes ago'')) ()
     (ContainerName example_opts) [[''docker'', ''image'', ''inspect'', ''dittoedge/server:latest'']] =
     (Inr ''exited'',
      [[''docker'', ''image'', ''inspect'', ''dittoedge/server:latest''],
       [''bash'', ''-lc'', psCommand ''ditto-edge'']])"
  by (simp add: NewDockerRunnerDefault_def dockerRunnerDefault_ContainerStatus_def Let_def
      example_os_def example_opts_def HasPrefix_def utf8_eval)

lemma example_ContainerStatus_running:
  "ContainerStatus (NewDockerRunnerDefault example_lower (example_os ''Up 3 hours'')) ()
     (ContainerName example_opts) [[''docker'', ''image'', ''inspect'', ''dittoedge/server:latest'']] =
     (Inr ''running'',
      [[''docker'', ''image'', ''inspect'', ''dittoedge/server:latest''],
       [''bash'', ''-lc'', psCommand ''ditto-edge'']])"
  by (simp add: NewDockerRunnerDefault_def dockerRunnerDefault_ContainerStatus_def Let_def
      example_os_def example_opts_def HasPrefix_def utf8_eval)

lemma example_RunContainer:
  "fst (RunContainer (NewDockerRunnerDefault example_lower (example_os st)) () example_opts w) = None"
  by (simp add: NewDockerRunnerDefault_def dockerRunnerDefault_RunContainer_def runCmd_def
      example_os_def Let_def)

text \<open>\<open>InitDB\<close> has no call of \<open>StartContainer\<close>.\<close>

lemma InitDB_no_StartContainer:
  "Call_StartContainer n \<notin> set (snd (snd (snd (InitDB s ctx w))))"
  by (simp add: InitDB_def Let_def split: option.split prod.split sum.split)

text \<open>
  Claim C7. A runner is attached, and \<open>EnsureImageLoaded\<close> and \<open>ContainerStatus\<close>
  succeed. If the status is \<open>running\<close>, \<open>InitDB\<close> returns \<open>nil\<close> after these two
  calls, without \<open>RunContainer\<close> or \<open>StartContainer\<close>. If the status is \<open>exited\<close> or
  \<open>not-found\<close>, it then calls \<open>RunContainer\<close> with the stored options, and returns
  \<open>nil\<close> exactly when that call does. It never calls \<open>StartContainer\<close>.
\<close>

theorem InitDB_by_status:
  assumes "docker s = Some d"
    and "EnsureImageLoaded d ctx (ImageName (dockerOpts s)) (ImageTarPath (dockerOpts s)) w
           = (None, w1)"
    and "ContainerStatus d ctx (ContainerName (dockerOpts s)) w1 = (Inr status, w2)"
  shows "(status = ''running'' \<longrightarrow>
            InitDB s ctx w =
              (None, s, w2,
               [Call_EnsureImageLoaded (ImageName (dockerOpts s)) (ImageTarPath (dockerOpts s)),
                Call_ContainerStatus (ContainerName (dockerOpts s))]))
       \<and> (status = ''exited'' \<or> status = ''not-found'' \<longrightarrow>
            snd (snd (InitDB s ctx w)) =
              (snd (RunContainer d ctx (dockerOpts s) w2),
               [Call_EnsureImageLoaded (ImageName (dockerOpts s)) (ImageTarPath (dockerOpts s)),
                Call_ContainerStatus (ContainerName (dockerOpts s)),
                Call_RunContainer (dockerOpts s)])
          \<and> (fst (InitDB s ctx w) = None \<longleftrightarrow> fst (RunContainer d ctx (dockerOpts s) w2) = None))
       \<and> (\<forall>n. Call_StartContainer n \<notin> set (snd (snd (snd (InitDB s ctx w)))))"
proof (intro conjI impI allI)
  assume "status = ''running''"
  with assms show "InitDB s ctx w =
              (None, s, w2,
               [Call_EnsureImageLoaded (ImageName (dockerOpts s)) (ImageTarPath (dockerOpts s)),
                Call_ContainerStatus (ContainerName (dockerOpts s))])"
    by (simp add: InitDB_def Let_def)
next
  assume st: "status = ''exited'' \<or> status = ''not-found''"
  obtain r w3 where run: "RunContainer d ctx (dockerOpts s) w2 = (r, w3)"
    by (cases "RunContainer d ctx (dockerOpts s) w2")
  from st assms run show "snd (snd (InitDB s ctx w)) =
              (snd (RunContainer d ctx (dockerOpts s) w2),
               [Call_EnsureImageLoaded (ImageName (dockerOpts s)) (ImageTarPath (dockerOpts s)),
                Call_ContainerStatus (ContainerName (dockerOpts s)),
                Call_RunContainer (dockerOpts s)])"
    by (auto simp: InitDB_def Let_def split: option.split)
  from st assms run show "fst (InitDB s ctx w) = None \<longleftrightarrow> fst (RunContainer d ctx (dockerOpts s) w2) = None"
    by (auto simp: InitDB_def Let_def split: option.split)
next
  fix n show "Call_StartContainer n \<notin> set (snd (snd (snd (InitDB s ctx w))))"
    by (rule InitDB_no_StartContainer)
qed

theorem InitDB_by_status_witness:
  "fst (InitDB (example_docker_service ''Exited (0) 2 minutes ago'') () []) = None
   \<and> snd (snd (snd (InitDB (example_docker_service ''Exited (0) 2 minutes ago'') () []))) =
       [Call_EnsureImageLoaded ''dittoedge/server:latest'' [],
        Call_ContainerStatus ''ditto-edge'',
        Call_RunContainer example_opts]
   \<and> InitDB (example_docker_service ''Up 3 hours'') () [] =
       (None, example_docker_service ''Up 3 hours'',
        [[''docker'', ''image'', ''inspect'', ''dittoedge/server:latest''],
         [''bash'', ''-lc'', psCommand ''ditto-edge'']],
        [Call_EnsureImageLoaded ''dittoedge/server:latest'' [],
         Call_ContainerStatus ''ditto-edge''])"
proof -
  have e: "EnsureImageLoaded (NewDockerRunnerDefault example_lower (example_os st)) ()
             (ImageName (dockerOpts (example_docker_service st)))
             (ImageTarPath (dockerOpts (example_docker_service st))) [] =
             (None, [[''docker'', ''image'', ''inspect'', ''dittoedge/server:latest'']])" for st
    unfolding example_docker_service_simps by (rule example_EnsureImageLoaded)
  have x: "ContainerStatus (NewDockerRunnerDefault example_lower (example_os ''Exited (0) 2 minutes ago'')) ()
             (ContainerName (dockerOpts (example_docker_service ''Exited (0) 2 minutes ago'')))
             [[''docker'', ''image'', ''inspect'', ''dittoedge/server:latest'']] =
             (Inr ''exited'',
              [[''docker'', ''image'', ''inspect'', ''dittoedge/server:latest''],
               [''bash'', ''-lc'', psCommand ''ditto-edge'']])"
    unfolding example_docker_service_simps by (rule example_ContainerStatus_exited)
  have r: "ContainerStatus (NewDockerRunnerDefault example_lower (example_os ''Up 3 hours'')) ()
             (ContainerName (dockerOpts (example_docker_service ''Up 3 hours'')))
             [[''docker'', ''image'', ''inspect'', ''dittoedge/server:latest'']] =
             (Inr ''running'',
              [[''docker'', ''image'', ''inspect'', ''dittoedge/server:latest''],
               [''bash'', ''-lc'', psCommand ''ditto-edge'']])"
    unfolding example_docker_service_simps by (rule example_ContainerStatus_running)
  show ?thesis
    using InitDB_by_status [OF example_docker_service_simps(1) e x]
      InitDB_by_status [OF example_docker_service_simps(1) e r]
    by (simp add: example_docker_service_simps example_RunContainer example_opts_simps)
qed

text \<open>
  Claim C9. \<open>Close\<close> returns \<open>nil\<close> for every service, context and state of the
  machine, whatever \<open>StopContainer\<close> returns; the flag \<open>startedDocker\<close> does not change
  what it does; with a runner attached it calls \<open>StopContainer\<close> once with the
  container name, without one it does nothing; and a second \<open>Close\<close> after the first
  returns \<open>nil\<close> again.
\<close>

theorem Close_always_nil:
  "fst (Close s ctx w) = None
   \<and> Close (s\<lparr>startedDocker := b\<rparr>) ctx w = Close s ctx w
   \<and> (case docker s of
        Some d \<Rightarrow>
          snd (Close s ctx w) =
            (snd (StopContainer d ctx (ContainerName (dockerOpts s)) w),
             [Call_StopContainer (ContainerName (dockerOpts s))])
      | None \<Rightarrow> snd (Close s ctx w) = (w, []))
   \<and> fst (Close s ctx' (fst (snd (Close s ctx w)))) = None"
  by (simp add: Close_def Let_def split: option.split prod.split)

text \<open>On a machine where every command fails, \<open>Close\<close> with the compose runner runs
  its three commands and returns \<open>nil\<close>.\<close>

lemma Close_example_failing:
  "Close example_compose_service () [] =
     (None,
      [[''docker'', ''compose'', ''stop'', ''ditto-edge''],
       [''docker'', ''stop'', ''ditto-edge''],
       [''docker'', ''rm'', ''-f'', ''ditto-edge'']],
      [Call_StopContainer ''ditto-edge''])"
  by (simp add: Close_def example_compose_service_def WithDocker_def NewComposeRunnerDefault_def
      composeRunnerDefault_StopContainer_def runCmd_def failing_os_def example_opts_def)

section \<open>Properties of the record operations\<close>

lemma Sprintf_d_1: "Sprintf_d 1 = ''1''"
  by (simp add: Sprintf_d_def digits.simps)

text \<open>The requests that \<open>execWithArgs\<close> hands to the client: none when the request
  could not be built, else the one request.\<close>

lemma execWithArgs_requests:
  "snd (execWithArgs s lib ctx q args) =
     (case NewRequestWithContext lib ctx ''POST''
             (TrimRight (BaseURL s) ''/'' @ ''/'' @ AppID s @ ''/execute'') of
        Some err \<Rightarrow> []
      | None \<Rightarrow> [\<lparr> reqMethod = ''POST'',
                    url = TrimRight (BaseURL s) ''/'' @ ''/'' @ AppID s @ ''/execute'',
                    contentType = ''application/json'', query = q, query_args = args \<rparr>])"
  by (simp add: execWithArgs_def Let_def split: option.split sum.split)

lemma BuildSelect_latest:
  "BuildSelect collection [] 1 sortBy ''DESC'' =
     ''SELECT * FROM '' @ escapeIdent collection
       @ (if sortBy = [] then [] else '' ORDER BY '' @ escapeIdent sortBy @ '' DESC'')
       @ '' LIMIT 1''"
  by (simp add: BuildSelect_eq Sprintf_d_1 upperByte_def)

text \<open>
  Claim C8. For every context, collection and sort field, \<open>LatestRecord\<close> is
  \<open>GetRecords\<close> with limit 1 and order \<open>DESC\<close>: the same result and the same requests.
  The request, if one is made, carries the statement
  \<open>SELECT * FROM <collection> [ORDER BY <field> DESC] LIMIT 1\<close> and no \<open>query_args\<close>.
\<close>

theorem LatestRecord_is_GetRecords:
  "LatestRecord s lib ctx collection sortBy = GetRecords s lib ctx collection 1 sortBy ''DESC''
   \<and> LatestRecord s lib ctx collection sortBy =
       execWithArgs s lib ctx
         (''SELECT * FROM '' @ escapeIdent collection
            @ (if sortBy = [] then [] else '' ORDER BY '' @ escapeIdent sortBy @ '' DESC'')
            @ '' LIMIT 1'') None
   \<and> snd (GetRecords s lib ctx collection 1 sortBy ''DESC'') =
       (case NewRequestWithContext lib ctx ''POST''
               (TrimRight (BaseURL s) ''/'' @ ''/'' @ AppID s @ ''/execute'') of
          Some err \<Rightarrow> []
        | None \<Rightarrow>
            [\<lparr> reqMethod = ''POST'',
               url = TrimRight (BaseURL s) ''/'' @ ''/'' @ AppID s @ ''/execute'',
               contentType = ''application/json'',
               query = ''SELECT * FROM '' @ escapeIdent collection
                  @ (if sortBy = [] then [] else '' ORDER BY '' @ escapeIdent sortBy @ '' DESC'')
                  @ '' LIMIT 1'',
               query_args = None \<rparr>])"
proof (intro conjI)
  show "LatestRecord s lib ctx collection sortBy = GetRecords s lib ctx collection 1 sortBy ''DESC''"
    by (simp add: LatestRecord_def GetRecords_def)
  show "LatestRecord s lib ctx collection sortBy =
       execWithArgs s lib ctx
         (''SELECT * FROM '' @ escapeIdent collection
            @ (if sortBy = [] then [] else '' ORDER BY '' @ escapeIdent sortBy @ '' DESC'')
            @ '' LIMIT 1'') None"
    unfolding LatestRecord_def Let_def BuildSelect_latest ..
  show "snd (GetRecords s lib ctx collection 1 sortBy ''DESC'') =
       (case NewRequestWithContext lib ctx ''POST''
               (TrimRight (BaseURL s) ''/'' @ ''/'' @ AppID s @ ''/execute'') of
          Some err \<Rightarrow> []
        | None \<Rightarrow>
            [\<lparr> reqMethod = ''POST'',
               url = TrimRight (BaseURL s) ''/'' @ ''/'' @ AppID s @ ''/execute'',
               contentType = ''application/json'',
               query = ''SELECT * FROM '' @ escapeIdent collection
                  @ (if sortBy = [] then [] else '' ORDER BY '' @ escapeIdent sortBy @ '' DESC'')
                  @ '' LIMIT 1'',
               query_args = None \<rparr>])"
    unfolding GetRecords_def Let_def BuildSelect_latest execWithArgs_requests ..
qed

lemma escapeIdent_Nil: "escapeIdent [] = []"
  by (simp add: escapeIdent_eq)

text \<open>
  Claim C10. For the empty collection name \<open>BuildSelect\<close> returns a statement that
  begins with \<open>SELECT * FROM \<close> (and is only that when there is nothing else to
  write); it has no error to return. \<open>GetRecord\<close>, \<open>GetRecords\<close>, \<open>Search\<close>,
  \<open>LatestRecord\<close> and \<open>DeleteRecord\<close> do not check the collection: when the request
  can be built they post the statement with the empty name. \<open>BuildInsert\<close>,
  \<open>BuildUpdate\<close> and \<open>DeleteAllRecords\<close> return a validation error instead, and
  nothing is posted.
\<close>

theorem empty_collection_not_validated:
  assumes "NewRequestWithContext lib ctx ''POST''
             (TrimRight (BaseURL s) ''/'' @ ''/'' @ AppID s @ ''/execute'') = None"
  shows "BuildSelect [] [] 0 [] sortOrder = ''SELECT * FROM ''
       \<and> prefix ''SELECT * FROM '' (BuildSelect [] filters limit sortBy sortOrder)
       \<and> map query (snd (GetRecord s lib ctx [] id')) = [''SELECT * FROM  WHERE _id == :id LIMIT 1'']
       \<and> map query (snd (GetRecords s lib ctx [] limit sortBy sortOrder))
           = [BuildSelect [] [] limit sortBy sortOrder]
       \<and> map query (snd (Search s lib ctx [] filters limit sortBy sortOrder))
           = [BuildSelect [] filters limit sortBy sortOrder]
       \<and> map query (snd (LatestRecord s lib ctx [] sortBy)) = [BuildSelect [] [] 1 sortBy ''DESC'']
       \<and> map query (snd (DeleteRecord s lib ctx [] id')) = [''DELETE FROM  WHERE _id = :id'']
       \<and> BuildInsert [] doc = Inl (Error ''collection required'')
       \<and> CreateDocument s lib ctx [] doc = (Inl (Error ''collection required''), [])
       \<and> BuildUpdate [] id' patch = Inl (Error ''collection and id required'')
       \<and> UpdateRecord s lib ctx [] id' patch = (Inl (Error ''collection and id required''), [])
       \<and> DeleteAllRecords s lib ctx [] = (Inl (Error ''collection required''), [])"
proof (intro conjI)
  show "BuildSelect [] [] 0 [] sortOrder = ''SELECT * FROM ''"
    by (simp add: BuildSelect_eq escapeIdent_Nil)
  show "prefix ''SELECT * FROM '' (BuildSelect [] filters limit sortBy sortOrder)"
    unfolding BuildSelect_eq by (rule prefixI) (rule refl)
  show "map query (snd (GetRecord s lib ctx [] id')) = [''SELECT * FROM  WHERE _id == :id LIMIT 1'']"
    using assms by (simp add: GetRecord_def execWithArgs_requests escapeIdent_Nil)
  show "map query (snd (GetRecords s lib ctx [] limit sortBy sortOrder))
           = [BuildSelect [] [] limit sortBy sortOrder]"
    using assms by (simp add: GetRecords_def execWithArgs_requests)
  show "map query (snd (Search s lib ctx [] filters limit sortBy sortOrder))
           = [BuildSelect [] filters limit sortBy sortOrder]"
    using assms by (simp add: Search_def execWithArgs_requests)
  show "map query (snd (LatestRecord s lib ctx [] sortBy)) = [BuildSelect [] [] 1 sortBy ''DESC'']"
    using assms by (simp add: LatestRecord_def execWithArgs_requests)
  show "map query (snd (DeleteRecord s lib ctx [] id')) = [''DELETE FROM  WHERE _id = :id'']"
    using assms by (simp add: DeleteRecord_def execWithArgs_requests escapeIdent_Nil)
  show "BuildInsert [] doc = Inl (Error ''collection required'')"
    by (simp add: BuildInsert_def)
  show "CreateDocument s lib ctx [] doc = (Inl (Error ''collection required''), [])"
    by (simp add: CreateDocument_def BuildInsert_def)
  show "BuildUpdate [] id' patch = Inl (Error ''collection and id required'')"
    by (simp add: BuildUpdate_def)
  show "UpdateRecord s lib ctx [] id' patch = (Inl (Error ''collection and id required''), [])"
    by (simp add: UpdateRecord_def BuildUpdate_def)
  show "DeleteAllRecords s lib ctx [] = (Inl (Error ''collection required''), [])"
    by (simp add: DeleteAllRecords_def)
qed

theorem empty_collection_not_validated_witness:
  "NewRequestWithContext example_lib () ''POST''
     (TrimRight (BaseURL (example_service 200 ''null'')) ''/'' @ ''/''
        @ AppID (example_service 200 ''null'') @ ''/execute'') = None
   \<and> map query (snd (GetRecord (example_service 200 ''null'') example_lib () [] ''u1''))
       = [''SELECT * FROM  WHERE _id == :id LIMIT 1'']
   \<and> map query (snd (DeleteRecord (example_service 200 ''null'') example_lib () [] ''u1''))
       = [''DELETE FROM  WHERE _id = :id'']
   \<and> map query (snd (LatestRecord (example_service 200 ''null'') example_lib () [] ''_id''))
       = [''SELECT * FROM  ORDER BY _id DESC LIMIT 1'']
   \<and> DeleteAllRecords (example_service 200 ''null'') example_lib () []
       = (Inl (Error ''collection required''), [])"
proof -
  have n: "NewRequestWithContext example_lib () ''POST''
     (TrimRight (BaseURL (example_service 200 ''null'')) ''/'' @ ''/''
        @ AppID (example_service 200 ''null'') @ ''/execute'') = None"
    by (simp add: example_lib_def)
  have b: "BuildSelect [] [] 1 ''_id'' ''DESC'' = ''SELECT * FROM  ORDER BY _id DESC LIMIT 1''"
    by (simp add: BuildSelect_latest escapeIdent_eq backtick_def)
  show ?thesis
    using n empty_collection_not_validated [OF n, of "''DESC''" "[]" 1 "''_id''" "''u1''" "[]" "[]"]
    by (simp add: b)
qed

end
